theory Spec2Isabelle
  imports Complex_Main "HOL-Library.AList"
begin

section \<open>The Bedrock usage report generator\<close>

text \<open>
  A shallow embedding of \<^verbatim>\<open>aws-bedrock-monitoring/scripts/6-usage-report.py\<close>.

  Conventions of the embedding.
  \<^item> Python's unbounded \<^verbatim>\<open>int\<close> is \<^typ>\<open>int\<close>.
  \<^item> Python's \<^verbatim>\<open>float\<close> is idealised as \<^typ>\<open>real\<close>: every arithmetic operation
    is exact, \<^verbatim>\<open>round(x, n)\<close> rounds half to even on the exact value, and the
    \<^verbatim>\<open>int\<close> \<open>0\<close> that some branches produce is identified with the float \<open>0.0\<close>.
    Binary64 rounding error, infinities and NaN are outside this part of the embedding,
    and so is the \<^verbatim>\<open>OverflowError\<close> of converting an integer beyond the float range:
    the theorems about \<open>build_report\<close> are statements of exact arithmetic. The latency
    statistics, where rounding decides the order of two fields, are modelled in binary64
    as well (\<open>performance_latency_f64\<close>).
  \<^item> \<^verbatim>\<open>time.sleep\<close> only waits; it is left out.
  \<^item> A \<^verbatim>\<open>dict\<close> is an association list in insertion order; a list that stands
    for a dict has distinct keys.
  \<^item> An exception is a value: a function that can raise returns
    \<open>py_exception + 'a\<close>, with \<open>Inl\<close> for the raised exception.
  \<^item> \<^verbatim>\<open>log_operation\<close> only prints; its output is not part of any result and is left out.
\<close>

subsection \<open>Exceptions\<close>

datatype py_exception =
    ClientError string string
  | NoCredentialsError
  | KeyError string
  | ValueError string
  | ZeroDivisionError
  | OverflowError
  | RuntimeError string
  | OtherException string

text \<open>
  The values stand for instances of \<^verbatim>\<open>Exception\<close>. \<open>ClientError code msg\<close> is
  botocore's \<^verbatim>\<open>ClientError\<close> with its error code and its text \<^verbatim>\<open>str(e)\<close>;
  \<open>OtherException msg\<close> is any other subclass of \<^verbatim>\<open>Exception\<close> (a connection
  failure, a read timeout) with its text. \<^verbatim>\<open>KeyboardInterrupt\<close> is not an
  \<^verbatim>\<open>Exception\<close> and is outside the embedding.
\<close>

fun str_exception :: "py_exception \<Rightarrow> string" where
  "str_exception (ClientError code msg) = msg"
| "str_exception NoCredentialsError = ''Unable to locate credentials''"
| "str_exception (KeyError k) = [CHR 0x27] @ k @ [CHR 0x27]"
| "str_exception (ValueError msg) = msg"
| "str_exception ZeroDivisionError = ''division by zero''"
| "str_exception OverflowError = ''date value out of range''"
| "str_exception (RuntimeError msg) = msg"
| "str_exception (OtherException msg) = msg"

text \<open>Sequencing of computations that may raise: the first exception ends the sequence.\<close>

definition bnd :: "py_exception + 'a \<Rightarrow> ('a \<Rightarrow> py_exception + 'b) \<Rightarrow> py_exception + 'b" where
  "bnd x f = (case x of Inl e \<Rightarrow> Inl e | Inr v \<Rightarrow> f v)"

subsection \<open>Python primitives\<close>

text \<open>\<^verbatim>\<open>d[k]\<close> on a dict: \<^verbatim>\<open>KeyError\<close> when the key is absent.\<close>

definition dict_get :: "(string \<times> 'v) list \<Rightarrow> string \<Rightarrow> py_exception + 'v" where
  "dict_get d k = (case map_of d k of None \<Rightarrow> Inl (KeyError k) | Some v \<Rightarrow> Inr v)"

text \<open>\<^verbatim>\<open>k in d\<close>.\<close>

definition dict_in :: "string \<Rightarrow> (string \<times> 'v) list \<Rightarrow> bool" where
  "dict_in k d = (k \<in> set (map fst d))"

text \<open>\<^verbatim>\<open>d[k] = v\<close>: an existing key keeps its position, a new key goes last.\<close>

definition dict_set :: "string \<Rightarrow> 'v \<Rightarrow> (string \<times> 'v) list \<Rightarrow> (string \<times> 'v) list" where
  "dict_set k v d = AList.update k v d"

text \<open>True division \<^verbatim>\<open>a / b\<close>.\<close>

definition py_truediv :: "real \<Rightarrow> real \<Rightarrow> py_exception + real" where
  "py_truediv a b = (if b = 0 then Inl ZeroDivisionError else Inr (a / b))"

text \<open>\<^verbatim>\<open>int(x)\<close> on a float: truncation towards zero.\<close>

definition py_int :: "real \<Rightarrow> int" where
  "py_int x = (if 0 \<le> x then \<lfloor>x\<rfloor> else \<lceil>x\<rceil>)"

text \<open>Rounding to the nearest integer, ties to the even neighbour.\<close>

definition round_half_even :: "real \<Rightarrow> int" where
  "round_half_even x =
     (let f = \<lfloor>x\<rfloor>; d = x - of_int f
      in if d < 1 / 2 then f
         else if 1 / 2 < d then f + 1
         else if even f then f else f + 1)"

text \<open>\<^verbatim>\<open>round(x, n)\<close> for a non-negative number of digits \<open>n\<close>.\<close>

definition py_round :: "real \<Rightarrow> nat \<Rightarrow> real" where
  "py_round x n = of_int (round_half_even (x * 10 ^ n)) / 10 ^ n"

subsection \<open>Data model\<close>

text \<open>\<^verbatim>\<open>ModelUsage\<close>: the usage statistics of one model.\<close>

record ModelUsage =
  invocations :: int
  input_tokens :: int
  output_tokens :: int
  total_latency :: real
  error_count :: int

text \<open>The property \<^verbatim>\<open>ModelUsage.avg_latency\<close>.\<close>

definition avg_latency :: "ModelUsage \<Rightarrow> py_exception + real" where
  "avg_latency u =
     (if invocations u > 0 then py_truediv (total_latency u) (of_int (invocations u))
      else Inr 0)"

text \<open>The sections of \<^verbatim>\<open>UsageReport\<close>; each dict with fixed keys is a record.\<close>

record Period =
  startTime :: string
  endTime :: string
  durationHours :: int

record Summary =
  totalInvocations :: int
  totalInputTokens :: int
  totalOutputTokens :: int
  estimatedCost :: real

record ModelEntry =
  m_invocations :: int
  m_inputTokens :: int
  m_outputTokens :: int
  m_cost :: real
  m_avgLatency :: real
  m_errorCount :: int

record Projections =
  monthlyInvocations :: int
  monthlyCost :: real

record Performance =
  avgLatency :: real
  p99Latency :: real
  errorCount :: int
  errorRate :: real

record UsageReport =
  period :: Period
  summary :: Summary
  by_model :: "(string \<times> ModelEntry) list"
  projections :: Projections
  performance :: Performance

subsection \<open>Pricing\<close>

record Pricing =
  input_price :: real
  output_price :: real

definition sonnet_id :: string where
  "sonnet_id = ''anthropic.claude-3-sonnet-20240229-v1:0''"

text \<open>\<^verbatim>\<open>BedrockPricing.PRICING\<close>: USD per 1000 tokens.\<close>

definition PRICING :: "(string \<times> Pricing) list" where
  "PRICING =
     [(''anthropic.claude-3-sonnet-20240229-v1:0'',
         \<lparr>input_price = 3 / 1000, output_price = 15 / 1000\<rparr>),
      (''anthropic.claude-3-opus-20240229-v1:0'',
         \<lparr>input_price = 15 / 1000, output_price = 75 / 1000\<rparr>),
      (''anthropic.claude-3-haiku-20240307-v1:0'',
         \<lparr>input_price = 25 / 100000, output_price = 125 / 100000\<rparr>),
      (''anthropic.claude-instant-v1'',
         \<lparr>input_price = 8 / 10000, output_price = 24 / 10000\<rparr>)]"

text \<open>\<^verbatim>\<open>BedrockPricing.calculate_cost\<close>.\<close>

definition calculate_cost :: "string \<Rightarrow> int \<Rightarrow> int \<Rightarrow> py_exception + real" where
  "calculate_cost model_id input_tokens' output_tokens' =
     bnd (if \<not> dict_in model_id PRICING
          then dict_get PRICING ''anthropic.claude-3-sonnet-20240229-v1:0''
          else dict_get PRICING model_id)
       (\<lambda>pricing.
          let input_cost = (of_int input_tokens' / 1000) * input_price pricing;
              output_cost = (of_int output_tokens' / 1000) * output_price pricing
          in Inr (input_cost + output_cost))"

subsection \<open>The AWS environment\<close>

text \<open>
  Everything the generator reads from outside is a field of the environment: the clock,
  the CloudWatch and CloudWatch Logs clients, and the library functions whose results are
  not computed here. A client call returns its response or the exception it raises.
  Responses carry the keys the code reads with the types the service gives them.
  A time stamp is a number of microseconds since \<^verbatim>\<open>datetime.min\<close>.
\<close>

type_synonym datetime = int

text \<open>The response of \<^verbatim>\<open>logs.get_query_results\<close>: its status and its rows of (field, value).\<close>

record QueryResults =
  q_status :: string
  q_results :: "(string \<times> string) list list"

record aws_env =
  config_region :: string
  aws_configure_get_region :: "bool \<times> string"
  init_clients :: "string \<Rightarrow> py_exception + unit"
  utcnow :: datetime
  isoformat :: "datetime \<Rightarrow> string"
  list_metrics :: "datetime \<Rightarrow> datetime \<Rightarrow> py_exception + (string \<times> string) list list"
  get_metric_statistics ::
    "string \<Rightarrow> string \<Rightarrow> datetime \<Rightarrow> datetime \<Rightarrow> py_exception + real list"
  start_query :: "string \<Rightarrow> datetime \<Rightarrow> datetime \<Rightarrow> py_exception + string"
  get_query_results :: "string \<Rightarrow> nat \<Rightarrow> py_exception + QueryResults"
  parse_float :: "string \<Rightarrow> py_exception + real"
  json_dumps :: "UsageReport \<Rightarrow> string"

text \<open>
  \<^item> \<open>config_region\<close>: \<^verbatim>\<open>self.config.dashboard.region\<close>.
  \<^item> \<open>aws_configure_get_region\<close>: success flag and output of the command
    \<^verbatim>\<open>aws configure get region\<close>.
  \<^item> \<open>init_clients region\<close>: creating the two boto3 clients and the connectivity test.
  \<^item> \<open>list_metrics start end\<close>: for each metric of the response, its dimensions as
    (Name, Value).
  \<^item> \<open>get_metric_statistics metric_name model_id start end\<close>: the \<^verbatim>\<open>Sum\<close> of each
    data point.
  \<^item> \<open>start_query model_id start end\<close>: the query identifier; the conversion of the
    time stamps for the call is part of it.
  \<^item> \<open>get_query_results query_id n\<close>: the response to the \<open>n\<close>-th poll.
  \<^item> \<open>parse_float\<close>: \<^verbatim>\<open>float(s)\<close> on a string.
  \<^item> \<open>json_dumps\<close>: \<^verbatim>\<open>json.dumps(asdict(report), indent=2)\<close>; a report holds
    strings and numbers only, which the serialiser accepts.
\<close>

subsection \<open>The usage aggregator\<close>

text \<open>
  \<^verbatim>\<open>_get_available_models\<close>. Only \<^verbatim>\<open>ClientError\<close> is handled here. The order of
  \<^verbatim>\<open>list(set)\<close> is not specified by Python; the embedding keeps the order of last
  occurrence.
\<close>

definition get_available_models :: "aws_env \<Rightarrow> datetime \<Rightarrow> datetime \<Rightarrow> py_exception + string list" where
  "get_available_models env start_time end_time =
     (case list_metrics env start_time end_time of
        Inl (ClientError code msg) \<Rightarrow> Inr []
      | Inl ex \<Rightarrow> Inl ex
      | Inr metrics \<Rightarrow>
          Inr (remdups (map snd (filter (\<lambda>(name, v). name = ''ModelId'') (concat metrics)))))"

text \<open>\<^verbatim>\<open>_get_metric_sum\<close>. Only \<^verbatim>\<open>ClientError\<close> is handled here.\<close>

definition get_metric_sum ::
  "aws_env \<Rightarrow> string \<Rightarrow> string \<Rightarrow> datetime \<Rightarrow> datetime \<Rightarrow> py_exception + int" where
  "get_metric_sum env metric_name model_id start_time end_time =
     (case get_metric_statistics env metric_name model_id start_time end_time of
        Inl (ClientError code msg) \<Rightarrow> Inr 0
      | Inl ex \<Rightarrow> Inl ex
      | Inr datapoints \<Rightarrow> Inr (py_int (sum_list datapoints)))"

text \<open>
  One pass through the body of the inner \<^verbatim>\<open>try\<close> of the polling loop:
  \<open>Some n\<close> when it returns \<open>n\<close>, \<open>None\<close> when it falls through to the next poll.
\<close>

definition poll_once :: "aws_env \<Rightarrow> string \<Rightarrow> nat \<Rightarrow> py_exception + int option" where
  "poll_once env query_id n =
     bnd (get_query_results env query_id n) (\<lambda>res.
       if q_status res = ''Complete'' then
         (case filter (\<lambda>(field, v). field = ''error_count'') (concat (q_results res)) of
            [] \<Rightarrow> Inr (Some 0)
          | (field, v) # others \<Rightarrow> bnd (parse_float env v) (\<lambda>x. Inr (Some (py_int x))))
       else if q_status res = ''Failed'' then Inr (Some 0)
       else Inr None)"

text \<open>
  The polling loop: \<^verbatim>\<open>max_wait = 10\<close>, one poll per second. A \<^verbatim>\<open>ClientError\<close>
  inside the inner \<^verbatim>\<open>try\<close> continues the loop; the loop's end is the timeout.
\<close>

function poll_loop :: "aws_env \<Rightarrow> string \<Rightarrow> nat \<Rightarrow> py_exception + int" where
  "poll_loop env query_id wait_time =
     (if wait_time < 10 then
        (case poll_once env query_id (wait_time + 1) of
           Inl (ClientError code msg) \<Rightarrow> poll_loop env query_id (wait_time + 1)
         | Inl ex \<Rightarrow> Inl ex
         | Inr (Some n) \<Rightarrow> Inr n
         | Inr None \<Rightarrow> poll_loop env query_id (wait_time + 1))
      else Inr 0)"
  by pat_completeness auto
termination
  by (relation "measure (\<lambda>(env, query_id, wait_time). 10 - wait_time)") auto

declare poll_loop.simps [simp del]

text \<open>\<^verbatim>\<open>_get_error_count\<close>: both handlers of the outer \<^verbatim>\<open>try\<close> return \<open>0\<close>.\<close>

definition get_error_count ::
  "aws_env \<Rightarrow> string \<Rightarrow> datetime \<Rightarrow> datetime \<Rightarrow> py_exception + int" where
  "get_error_count env model_id start_time end_time =
     (case bnd (start_query env model_id start_time end_time)
             (\<lambda>query_id. poll_loop env query_id 0) of
        Inl (ClientError code msg) \<Rightarrow> Inr 0
      | Inl ex \<Rightarrow> Inr 0
      | Inr n \<Rightarrow> Inr n)"

text \<open>The body of the \<^verbatim>\<open>for\<close> loop of \<^verbatim>\<open>get_metrics_data\<close> up to the inclusion test.\<close>

definition collect_usage ::
  "aws_env \<Rightarrow> string \<Rightarrow> datetime \<Rightarrow> datetime \<Rightarrow> py_exception + ModelUsage" where
  "collect_usage env model_id start_time end_time =
     bnd (get_metric_sum env ''Invocations'' model_id start_time end_time) (\<lambda>inv.
     bnd (get_metric_sum env ''InputTokenCount'' model_id start_time end_time) (\<lambda>inp.
     bnd (get_metric_sum env ''OutputTokenCount'' model_id start_time end_time) (\<lambda>outp.
     bnd (get_metric_sum env ''InvocationLatency'' model_id start_time end_time) (\<lambda>latency_sum.
     Inr \<lparr>invocations = inv,
          input_tokens = inp,
          output_tokens = outp,
          total_latency = of_int latency_sum / 1000,
          error_count =
            (case get_error_count env model_id start_time end_time of
               Inl ex \<Rightarrow> 0
             | Inr n \<Rightarrow> n)\<rparr>))))"

text \<open>
  The \<^verbatim>\<open>for\<close> loop: the mapping built so far, and the exception that ended the loop, if
  one did.
\<close>

fun usage_loop ::
  "aws_env \<Rightarrow> datetime \<Rightarrow> datetime \<Rightarrow> (string \<times> ModelUsage) list \<Rightarrow> string list
     \<Rightarrow> (string \<times> ModelUsage) list \<times> py_exception option" where
  "usage_loop env start_time end_time model_usage [] = (model_usage, None)"
| "usage_loop env start_time end_time model_usage (model_id # rest) =
     (case collect_usage env model_id start_time end_time of
        Inl ex \<Rightarrow> (model_usage, Some ex)
      | Inr usage \<Rightarrow>
          usage_loop env start_time end_time
            (if invocations usage > 0 then dict_set model_id usage model_usage else model_usage)
            rest)"

text \<open>
  \<^verbatim>\<open>get_metrics_data\<close>: the outer handler catches every \<^verbatim>\<open>Exception\<close> and the
  function returns \<^verbatim>\<open>model_usage\<close> as it stands at that moment.
\<close>

definition get_metrics_data ::
  "aws_env \<Rightarrow> datetime \<Rightarrow> datetime \<Rightarrow> py_exception + (string \<times> ModelUsage) list" where
  "get_metrics_data env start_time end_time =
     (case get_available_models env start_time end_time of
        Inl ex \<Rightarrow> Inr []
      | Inr models \<Rightarrow>
          if models = [] then Inr []
          else (case usage_loop env start_time end_time [] models of
                  (model_usage, raised) \<Rightarrow> Inr model_usage))"

subsection \<open>The report builder\<close>

text \<open>
  \<^verbatim>\<open>sum(BedrockPricing.calculate_cost(model_id, usage.input_tokens, usage.output_tokens)
      for model_id, usage in model_usage.items())\<close>: \<^verbatim>\<open>sum\<close> adds from \<open>0\<close>, left to right.
\<close>

fun sum_costs :: "real \<Rightarrow> (string \<times> ModelUsage) list \<Rightarrow> py_exception + real" where
  "sum_costs acc [] = Inr acc"
| "sum_costs acc ((model_id, usage) # rest) =
     bnd (calculate_cost model_id (input_tokens usage) (output_tokens usage))
       (\<lambda>c. sum_costs (acc + c) rest)"

text \<open>\<^verbatim>\<open>sum(usage.avg_latency * usage.invocations for usage in model_usage.values())\<close>.\<close>

fun sum_weighted_latency :: "real \<Rightarrow> (string \<times> ModelUsage) list \<Rightarrow> py_exception + real" where
  "sum_weighted_latency acc [] = Inr acc"
| "sum_weighted_latency acc ((model_id, usage) # rest) =
     bnd (avg_latency usage)
       (\<lambda>a. sum_weighted_latency (acc + a * of_int (invocations usage)) rest)"

text \<open>\<^verbatim>\<open>max(xs)\<close> on a list: \<^verbatim>\<open>ValueError\<close> when the list is empty.\<close>

fun py_max :: "real list \<Rightarrow> py_exception + real" where
  "py_max [] = Inl (ValueError ''max() arg is an empty sequence'')"
| "py_max (x # xs) = Inr (fold max xs x)"

text \<open>The loop that fills \<^verbatim>\<open>by_model\<close>, entry by entry.\<close>

fun build_by_model ::
  "(string \<times> ModelEntry) list \<Rightarrow> (string \<times> ModelUsage) list
     \<Rightarrow> py_exception + (string \<times> ModelEntry) list" where
  "build_by_model entries [] = Inr entries"
| "build_by_model entries ((model_id, usage) # rest) =
     bnd (calculate_cost model_id (input_tokens usage) (output_tokens usage))
       (\<lambda>cost.
          bnd (avg_latency usage)
            (\<lambda>avg.
               build_by_model
                 (dict_set model_id
                    \<lparr>m_invocations = invocations usage,
                     m_inputTokens = input_tokens usage,
                     m_outputTokens = output_tokens usage,
                     m_cost = py_round cost 4,
                     m_avgLatency = py_round avg 3,
                     m_errorCount = error_count usage\<rparr>
                    entries)
                 rest))"

text \<open>
  The body of \<^verbatim>\<open>UsageReportGenerator.generate_report\<close> from the summary statistics
  on (source lines 287 to 351): the report built from a usage mapping, the window length
  and the two ISO time stamps of the period.
\<close>

definition build_report ::
  "string \<Rightarrow> string \<Rightarrow> (string \<times> ModelUsage) list \<Rightarrow> int \<Rightarrow> py_exception + UsageReport" where
  "build_report start_iso end_iso model_usage hours =
     (let total_invocations = sum_list (map (\<lambda>(model_id, usage). invocations usage) model_usage);
          total_input_tokens = sum_list (map (\<lambda>(model_id, usage). input_tokens usage) model_usage);
          total_output_tokens = sum_list (map (\<lambda>(model_id, usage). output_tokens usage) model_usage)
      in
      bnd (sum_costs 0 model_usage) (\<lambda>total_cost.
      let all_latencies =
            map (\<lambda>(model_id, usage). total_latency usage)
              (filter (\<lambda>(model_id, usage). invocations usage > 0) model_usage)
      in
      bnd (if total_invocations > 0
           then bnd (sum_weighted_latency 0 model_usage)
                  (\<lambda>s. py_truediv s (of_int total_invocations))
           else Inr 0) (\<lambda>avg_latency'.
      let total_errors = sum_list (map (\<lambda>(model_id, usage). error_count usage) model_usage)
      in
      bnd (if total_invocations > 0
           then bnd (py_truediv (of_int total_errors) (of_int total_invocations))
                  (\<lambda>q. Inr (q * 100))
           else Inr 0) (\<lambda>error_rate.
      bnd (if all_latencies \<noteq> [] then py_max all_latencies else Inr 0) (\<lambda>p99_latency.
      let hours_in_month = (24 * 30 :: int)
      in
      bnd (if hours > 0 then py_truediv (of_int hours_in_month) (of_int hours) else Inr 0)
        (\<lambda>projection_multiplier.
      let monthly_invocations = py_int (of_int total_invocations * projection_multiplier);
          monthly_cost = total_cost * projection_multiplier
      in
      bnd (build_by_model [] model_usage) (\<lambda>entries.
      Inr \<lparr>period = \<lparr>startTime = start_iso, endTime = end_iso, durationHours = hours\<rparr>,
           summary = \<lparr>totalInvocations = total_invocations,
                      totalInputTokens = total_input_tokens,
                      totalOutputTokens = total_output_tokens,
                      estimatedCost = py_round total_cost 4\<rparr>,
           by_model = entries,
           projections = \<lparr>monthlyInvocations = monthly_invocations,
                          monthlyCost = py_round monthly_cost 2\<rparr>,
           performance = \<lparr>avgLatency = py_round avg_latency' 3,
                          p99Latency = py_round p99_latency 3,
                          errorCount = total_errors,
                          errorRate = py_round error_rate 2\<rparr>\<rparr>)))))))"

subsection \<open>Generating a report\<close>

text \<open>
  \<^verbatim>\<open>timedelta(hours=hours)\<close>: a duration in microseconds; \<^verbatim>\<open>OverflowError\<close> when the
  number of days leaves \<open>[-999999999, 999999999]\<close>.
\<close>

definition timedelta_hours :: "int \<Rightarrow> py_exception + int" where
  "timedelta_hours h =
     (let days = h div 24
      in if days < - 999999999 \<or> 999999999 < days then Inl OverflowError
         else Inr (h * 3600000000))"

text \<open>
  \<^verbatim>\<open>datetime - timedelta\<close>: \<^verbatim>\<open>OverflowError\<close> when the result leaves the years 1 to
  9999 (3652059 days).
\<close>

definition datetime_sub :: "datetime \<Rightarrow> int \<Rightarrow> py_exception + datetime" where
  "datetime_sub t delta =
     (let r = t - delta
      in if r < 0 \<or> 3652059 * 86400000000 \<le> r then Inl OverflowError else Inr r)"

text \<open>\<^verbatim>\<open>UsageReportGenerator.generate_report\<close>.\<close>

definition generate_report :: "aws_env \<Rightarrow> int \<Rightarrow> py_exception + UsageReport" where
  "generate_report env hours =
     (let end_time = utcnow env
      in bnd (timedelta_hours hours) (\<lambda>delta.
         bnd (datetime_sub end_time delta) (\<lambda>start_time.
         bnd (get_metrics_data env start_time end_time) (\<lambda>model_usage.
         build_report (isoformat env start_time) (isoformat env end_time) model_usage hours))))"

text \<open>
  \<^verbatim>\<open>UsageReportGenerator.__init__\<close>: the region the generator works in, or the
  \<^verbatim>\<open>RuntimeError\<close> it raises. A failure to load the configuration falls back to the
  defaults and raises nothing.
\<close>

definition generator_init :: "aws_env \<Rightarrow> string option \<Rightarrow> py_exception + string" where
  "generator_init env region =
     (let self_region =
            (case region of
               None \<Rightarrow> config_region env
             | Some r \<Rightarrow> if r = [] then config_region env else r)
      in case init_clients env self_region of
           Inl NoCredentialsError \<Rightarrow>
             Inl (RuntimeError
                   (''AWS credentials not configured. Please run '' @ [CHR 0x27]
                    @ ''aws configure'' @ [CHR 0x27] @ ''.''))
         | Inl (ClientError code msg) \<Rightarrow>
             if code = ''UnauthorizedOperation''
             then Inl (RuntimeError ''Insufficient AWS permissions for CloudWatch access.'')
             else Inl (RuntimeError (''AWS service error: '' @ msg))
         | Inl ex \<Rightarrow>
             Inl (RuntimeError (''Failed to initialize AWS clients: '' @ str_exception ex))
         | Inr u \<Rightarrow> Inr self_region)"

subsection \<open>Formatting a report\<close>

text \<open>Decimal digits of a natural number, as \<^verbatim>\<open>str\<close> writes them.\<close>

function str_nat :: "nat \<Rightarrow> string" where
  "str_nat n =
     (if n < 10 then [char_of (48 + n)]
      else str_nat (n div 10) @ [char_of (48 + n mod 10)])"
  by pat_completeness auto
termination
  by (relation "measure (\<lambda>n. n)") auto

declare str_nat.simps [simp del]

definition str_int :: "int \<Rightarrow> string" where
  "str_int i = (if i < 0 then CHR ''-'' # str_nat (nat (- i)) else str_nat (nat i))"

text \<open>Groups of three digits from the right, separated by commas.\<close>

function commas :: "string \<Rightarrow> string" where
  "commas ds =
     (if length ds \<le> 3 then ds
      else commas (take (length ds - 3) ds) @ '','' @ drop (length ds - 3) ds)"
  by pat_completeness auto
termination
  by (relation "measure length") auto

declare commas.simps [simp del]

text \<open>The format \<^verbatim>\<open>{n:,}\<close> on an integer.\<close>

definition fmt_commas :: "int \<Rightarrow> string" where
  "fmt_commas i =
     (if i < 0 then CHR ''-'' # commas (str_nat (nat (- i))) else commas (str_nat (nat i)))"

text \<open>
  The format \<^verbatim>\<open>{x:.df}\<close> with \<open>d > 0\<close> decimals: the sign, the integer part and \<open>d\<close>
  digits of the rounded magnitude.
\<close>

definition fmt_fixed :: "nat \<Rightarrow> real \<Rightarrow> string" where
  "fmt_fixed d x =
     (let k = nat (round_half_even (\<bar>x\<bar> * 10 ^ d));
          frac = str_nat (k mod 10 ^ d)
      in (if x < 0 then ''-'' else [])
         @ str_nat (k div 10 ^ d) @ ''.''
         @ replicate (d - length frac) CHR ''0'' @ frac)"

text \<open>\<^verbatim>\<open>"\n".join(lines)\<close>.\<close>

fun join_lines :: "string list \<Rightarrow> string" where
  "join_lines [] = []"
| "join_lines [l] = l"
| "join_lines (l # ls) = l @ [CHR 0x0A] @ join_lines ls"

text \<open>
  \<^verbatim>\<open>model_id.split('.')[-1] if '.' in model_id else model_id\<close>: what follows the last
  dot.
\<close>

definition model_name :: "string \<Rightarrow> string" where
  "model_name model_id =
     (if CHR ''.'' \<in> set model_id
      then rev (takeWhile (\<lambda>c. c \<noteq> CHR ''.'') (rev model_id))
      else model_id)"

text \<open>The lines of one model's block in the text report.\<close>

definition model_block :: "string \<times> ModelEntry \<Rightarrow> string list" where
  "model_block me =
     (case me of (model_id, usage) \<Rightarrow>
        [[CHR 0x0A] @ model_name model_id @ '':'',
         ''  Invocations:     '' @ fmt_commas (m_invocations usage),
         ''  Input Tokens:    '' @ fmt_commas (m_inputTokens usage),
         ''  Output Tokens:   '' @ fmt_commas (m_outputTokens usage),
         ''  Cost:            $'' @ fmt_fixed 4 (m_cost usage),
         ''  Avg Latency:     '' @ fmt_fixed 3 (m_avgLatency usage) @ ''s'',
         ''  Errors:          '' @ str_int (m_errorCount usage)])"

text \<open>\<^verbatim>\<open>UsageReportGenerator._format_text_report\<close>.\<close>

definition format_text_report :: "UsageReport \<Rightarrow> string" where
  "format_text_report report =
     join_lines
       ([replicate 60 CHR ''='',
         ''AWS BEDROCK USAGE REPORT'',
         replicate 60 CHR ''='',
         [],
         ''Report Period: '' @ str_int (durationHours (period report)) @ '' hours'',
         ''From: '' @ startTime (period report),
         ''To:   '' @ endTime (period report),
         [],
         ''SUMMARY'',
         replicate 20 CHR ''-'',
         ''Total Invocations:    '' @ fmt_commas (totalInvocations (summary report)),
         ''Total Input Tokens:   '' @ fmt_commas (totalInputTokens (summary report)),
         ''Total Output Tokens:  '' @ fmt_commas (totalOutputTokens (summary report)),
         ''Estimated Cost:       $'' @ fmt_fixed 4 (estimatedCost (summary report)),
         [],
         ''PERFORMANCE'',
         replicate 20 CHR ''-'',
         ''Average Latency:      '' @ fmt_fixed 3 (avgLatency (performance report)) @ ''s'',
         ''P99 Latency:          '' @ fmt_fixed 3 (p99Latency (performance report)) @ ''s'',
         ''Error Count:          '' @ str_int (errorCount (performance report)),
         ''Error Rate:           '' @ fmt_fixed 2 (errorRate (performance report)) @ ''%'',
         []]
        @ (if by_model report \<noteq> []
           then [''BY MODEL'', replicate 20 CHR ''-''] @ concat (map model_block (by_model report))
           else [])
        @ [[],
           ''MONTHLY PROJECTIONS'',
           replicate 20 CHR ''-'',
           ''Projected Invocations: '' @ fmt_commas (monthlyInvocations (projections report)),
           ''Projected Cost:        $'' @ fmt_fixed 2 (monthlyCost (projections report)),
           []])"

text \<open>\<^verbatim>\<open>str.lower\<close>, on ASCII letters.\<close>

definition lower_char :: "char \<Rightarrow> char" where
  "lower_char c =
     (if 65 \<le> (of_char c :: nat) \<and> (of_char c :: nat) \<le> 90 then char_of (of_char c + 32 :: nat)
      else c)"

definition lower :: "string \<Rightarrow> string" where
  "lower s = map lower_char s"

text \<open>\<^verbatim>\<open>UsageReportGenerator.format_report\<close>.\<close>

definition format_report :: "aws_env \<Rightarrow> UsageReport \<Rightarrow> string \<Rightarrow> py_exception + string" where
  "format_report env report output_format =
     (if lower output_format = ''json'' then Inr (json_dumps env report)
      else if lower output_format = ''text'' then Inr (format_text_report report)
      else Inl (ValueError (''Unsupported output format: '' @ output_format)))"

subsection \<open>The command line\<close>

text \<open>The parsed arguments: \<^verbatim>\<open>--hours\<close>, \<^verbatim>\<open>--region\<close>, \<^verbatim>\<open>--output\<close>, \<^verbatim>\<open>--validate-only\<close>.\<close>

record Args =
  arg_hours :: int
  arg_region :: "string option"
  arg_output :: string
  arg_validate_only :: bool

definition is_lower :: "char \<Rightarrow> bool" where
  "is_lower c = (97 \<le> (of_char c :: nat) \<and> (of_char c :: nat) \<le> 122)"

definition is_digit :: "char \<Rightarrow> bool" where
  "is_digit c = (48 \<le> (of_char c :: nat) \<and> (of_char c :: nat) \<le> 57)"

text \<open>
  \<^verbatim>\<open>re.match(r'^[a-z]{2}-[a-z]+-\d+$', region)\<close> on ASCII text: two letters, a dash,
  letters, a dash, digits, and then the end of the string or one final newline, which
  \<^verbatim>\<open>$\<close> also accepts.
\<close>

definition region_pattern :: "string \<Rightarrow> bool" where
  "region_pattern s =
     (case s of
        a # b # c # rest \<Rightarrow>
          is_lower a \<and> is_lower b \<and> c = CHR ''-'' \<and> takeWhile is_lower rest \<noteq> []
          \<and> (case dropWhile is_lower rest of
                [] \<Rightarrow> False
              | c' # rest' \<Rightarrow>
                  c' = CHR ''-'' \<and> takeWhile is_digit rest' \<noteq> []
                  \<and> (dropWhile is_digit rest' = [] \<or> dropWhile is_digit rest' = [CHR 0x0A]))
      | _ \<Rightarrow> False)"

text \<open>\<^verbatim>\<open>utils.validate_aws_region\<close>.\<close>

definition validate_aws_region :: "string \<Rightarrow> bool" where
  "validate_aws_region region = (if region = [] then False else region_pattern region)"

text \<open>\<^verbatim>\<open>utils.get_aws_region\<close>.\<close>

definition get_aws_region :: "aws_env \<Rightarrow> string option" where
  "get_aws_region env =
     (case aws_configure_get_region env of
        (success, output) \<Rightarrow>
          if success \<and> validate_aws_region output then Some output else None)"

text \<open>\<^verbatim>\<open>validate_arguments\<close>.\<close>

definition validate_arguments :: "Args \<Rightarrow> string list" where
  "validate_arguments args =
     (let errors = [];
          errors =
            (if arg_hours args \<le> 0 then errors @ [''Hours must be a positive integer'']
             else if arg_hours args > 8760 then errors @ [''Hours cannot exceed 8760 (1 year)'']
             else errors);
          errors =
            (case arg_region args of
               None \<Rightarrow> errors
             | Some region \<Rightarrow>
                 if region \<noteq> [] \<and> \<not> validate_aws_region region
                 then errors @ [''Invalid AWS region format: '' @ region]
                 else errors)
      in errors)"

text \<open>
  What a run of \<^verbatim>\<open>main\<close> ends with: \<open>Exit code lines\<close> is \<^verbatim>\<open>sys.exit(code)\<close> after
  the lines were printed to the standard error stream; \<open>Returned lines\<close> is a normal
  return (exit status 0) after the lines were printed to the standard output.
\<close>

datatype main_result = Exit int "string list" | Returned "string list"

text \<open>
  \<^verbatim>\<open>main\<close>. \<^verbatim>\<open>sys.exit\<close> raises \<^verbatim>\<open>SystemExit\<close>, which the handlers of \<^verbatim>\<open>main\<close> do
  not catch.
\<close>

definition main :: "aws_env \<Rightarrow> Args \<Rightarrow> main_result" where
  "main env args =
     (let validation_errors = validate_arguments args
      in if validation_errors \<noteq> [] then
           Exit 1 (''Validation errors:'' # map (\<lambda>error. ''  - '' @ error) validation_errors)
         else if arg_validate_only args then Returned [''Arguments validation passed'']
         else
           let region =
                 (case arg_region args of
                    Some r \<Rightarrow>
                      if r \<noteq> [] then r
                      else (case get_aws_region env of
                              Some r' \<Rightarrow> if r' \<noteq> [] then r' else ''us-east-1''
                            | None \<Rightarrow> ''us-east-1'')
                  | None \<Rightarrow>
                      (case get_aws_region env of
                         Some r' \<Rightarrow> if r' \<noteq> [] then r' else ''us-east-1''
                       | None \<Rightarrow> ''us-east-1''))
           in case bnd (generator_init env (Some region)) (\<lambda>generator.
                   bnd (generate_report env (arg_hours args)) (\<lambda>report.
                   format_report env report (arg_output args))) of
                Inl e \<Rightarrow> Exit 1 [''Error generating report: '' @ str_exception e]
              | Inr formatted_report \<Rightarrow> Returned [formatted_report])"

subsection \<open>Closed forms\<close>

text \<open>
  The values the builder computes, written without the exception plumbing. They are used
  in the proofs only: \<open>build_report_eq\<close> shows that \<open>build_report\<close> returns
  \<open>report_of\<close>, so none of the guarded divisions, dictionary reads or \<^verbatim>\<open>max\<close> calls
  of the builder raises.
\<close>

definition cost_of :: "string \<times> ModelUsage \<Rightarrow> real" where
  "cost_of mu = projr (calculate_cost (fst mu) (input_tokens (snd mu)) (output_tokens (snd mu)))"

definition avg_of :: "ModelUsage \<Rightarrow> real" where
  "avg_of u = (if invocations u > 0 then total_latency u / of_int (invocations u) else 0)"

definition entry_of :: "string \<times> ModelUsage \<Rightarrow> ModelEntry" where
  "entry_of mu =
     \<lparr>m_invocations = invocations (snd mu),
      m_inputTokens = input_tokens (snd mu),
      m_outputTokens = output_tokens (snd mu),
      m_cost = py_round (cost_of mu) 4,
      m_avgLatency = py_round (avg_of (snd mu)) 3,
      m_errorCount = error_count (snd mu)\<rparr>"

definition p99_of :: "real list \<Rightarrow> real" where
  "p99_of xs = (case xs of [] \<Rightarrow> 0 | x # ys \<Rightarrow> fold max ys x)"

definition report_of :: "string \<Rightarrow> string \<Rightarrow> (string \<times> ModelUsage) list \<Rightarrow> int \<Rightarrow> UsageReport" where
  "report_of s e mus h =
     (let n = sum_list (map (\<lambda>(m, u). invocations u) mus);
          k = sum_list (map (\<lambda>(m, u). error_count u) mus);
          c = sum_list (map cost_of mus);
          pm = (if h > 0 then 720 / of_int h else 0)
      in \<lparr>period = \<lparr>startTime = s, endTime = e, durationHours = h\<rparr>,
          summary = \<lparr>totalInvocations = n,
                     totalInputTokens = sum_list (map (\<lambda>(m, u). input_tokens u) mus),
                     totalOutputTokens = sum_list (map (\<lambda>(m, u). output_tokens u) mus),
                     estimatedCost = py_round c 4\<rparr>,
          by_model = fold (\<lambda>mu. dict_set (fst mu) (entry_of mu)) mus [],
          projections = \<lparr>monthlyInvocations = py_int (of_int n * pm),
                         monthlyCost = py_round (c * pm) 2\<rparr>,
          performance =
            \<lparr>avgLatency =
               py_round (if n > 0
                         then sum_list (map (\<lambda>(m, u). avg_of u * of_int (invocations u)) mus) / of_int n
                         else 0) 3,
             p99Latency =
               py_round (p99_of (map (\<lambda>(m, u). total_latency u)
                                   (filter (\<lambda>(m, u). invocations u > 0) mus))) 3,
             errorCount = k,
             errorRate = py_round (if n > 0 then of_int k / of_int n * 100 else 0) 2\<rparr>\<rparr>)"

subsection \<open>The latency statistics in binary64\<close>

text \<open>
  The blended average latency and the p99 approximation of the report (source lines 41,
  297 to 303, 344 and 345), computed as CPython computes them on binary64 floats. A
  float is the real number it denotes; every operation is the exact operation followed
  by rounding to the nearest binary64 value, ties to the even significand. \<open>None\<close> stands
  for a result that is not a finite float (an infinity, or the \<^verbatim>\<open>OverflowError\<close> of
  converting an integer beyond the float range).
\<close>
















subsection \<open>Failed metric queries read as zero\<close>

text \<open>
  The environment in which every metric query that fails answers with no data points
  instead, so that its sum is \<open>0\<close>. It states the reading "a query failure yields 0 for
  that metric only": under that reading the aggregation in an environment is the
  aggregation in this one.
\<close>

definition zero_failures :: "aws_env \<Rightarrow> aws_env" where
  "zero_failures env =
     env\<lparr>get_metric_statistics :=
           (\<lambda>metric_name model_id start_time end_time.
              case get_metric_statistics env metric_name model_id start_time end_time of
                Inl ex \<Rightarrow> Inr []
              | Inr datapoints \<Rightarrow> Inr datapoints)\<rparr>"

subsection \<open>Sample environments\<close>

text \<open>
  Concrete inputs for the instances below. \<open>quiet_env\<close> has no metrics at all. In
  \<open>timeout_env\<close> two models are discovered, every metric sums to 5, and every
  input-token query ends in a read timeout, which is not a \<^verbatim>\<open>ClientError\<close>. In
  \<open>throttled_env\<close> the input-token query of the first model is refused with a
  \<^verbatim>\<open>ClientError\<close>, the log query of the first model cannot be started and that of
  the second never completes.
\<close>

definition quiet_env :: aws_env where
  "quiet_env =
     \<lparr>config_region = ''us-east-1'',
      aws_configure_get_region = (False, []),
      init_clients = (\<lambda>region. Inr ()),
      utcnow = 63839664000000000,
      isoformat = str_int,
      list_metrics = (\<lambda>start_time end_time. Inr []),
      get_metric_statistics = (\<lambda>metric_name model_id start_time end_time. Inr []),
      start_query = (\<lambda>model_id start_time end_time. Inr ''query-1''),
      get_query_results = (\<lambda>query_id n. Inr \<lparr>q_status = ''Complete'', q_results = []\<rparr>),
      parse_float = (\<lambda>s. Inl (ValueError ''could not convert string to float'')),
      json_dumps = (\<lambda>report. ''{}'')\<rparr>"

definition two_models :: "(string \<times> string) list list" where
  "two_models = [[(''ModelId'', ''model-a'')], [(''ModelId'', ''model-b'')]]"

definition timeout_env :: aws_env where
  "timeout_env =
     quiet_env
       \<lparr>list_metrics := (\<lambda>start_time end_time. Inr two_models),
        get_metric_statistics :=
          (\<lambda>metric_name model_id start_time end_time.
             if metric_name = ''InputTokenCount''
             then Inl (OtherException ''Read timeout on endpoint URL'')
             else Inr [5])\<rparr>"

definition throttled_env :: aws_env where
  "throttled_env =
     quiet_env
       \<lparr>list_metrics := (\<lambda>start_time end_time. Inr two_models),
        get_metric_statistics :=
          (\<lambda>metric_name model_id start_time end_time.
             if metric_name = ''InputTokenCount'' \<and> model_id = ''model-a''
             then Inl (ClientError ''ThrottlingException'' ''Rate exceeded'')
             else Inr [5]),
        start_query :=
          (\<lambda>model_id start_time end_time.
             if model_id = ''model-a'' then Inl (OtherException ''Connection reset'')
             else Inr ''query-b''),
        get_query_results := (\<lambda>query_id n. Inr \<lparr>q_status = ''Running'', q_results = []\<rparr>)\<rparr>"

definition sample_report :: UsageReport where
  "sample_report =
     \<lparr>period = \<lparr>startTime = ''2024-01-01T00:00:00'', endTime = ''2024-01-02T00:00:00'',
                 durationHours = 24\<rparr>,
      summary = \<lparr>totalInvocations = 0, totalInputTokens = 0, totalOutputTokens = 0,
                  estimatedCost = 0\<rparr>,
      by_model = [],
      projections = \<lparr>monthlyInvocations = 0, monthlyCost = 0\<rparr>,
      performance = \<lparr>avgLatency = 0, p99Latency = 0, errorCount = 0, errorRate = 0\<rparr>\<rparr>"

section \<open>Properties\<close>

subsection \<open>Pricing\<close>

lemma dict_get_sonnet:
  "dict_get PRICING ''anthropic.claude-3-sonnet-20240229-v1:0'' =
     Inr \<lparr>input_price = 3 / 1000, output_price = 15 / 1000\<rparr>"
  by (simp add: dict_get_def PRICING_def)

lemma dict_get_in: "dict_in k d \<Longrightarrow> \<exists>v. dict_get d k = Inr v"
  unfolding dict_in_def dict_get_def
  by (cases "map_of d k") (auto simp: map_of_eq_None_iff)

text \<open>
  Claim C4. For a model identifier that is not a key of the pricing table, and for all
  token counts, \<open>calculate_cost\<close> returns the cost at the Sonnet entry's rates:
  \<open>(input_tokens / 1000) * input_price + (output_tokens / 1000) * output_price\<close> with the
  Sonnet prices, which is also what it returns for the Sonnet identifier itself.
\<close>

theorem calculate_cost_unknown_model:
  assumes "\<not> dict_in model_id PRICING"
  shows "\<exists>p. dict_get PRICING sonnet_id = Inr p
           \<and> calculate_cost model_id i o' =
               Inr ((of_int i / 1000) * input_price p + (of_int o' / 1000) * output_price p)
           \<and> calculate_cost model_id i o' = calculate_cost sonnet_id i o'"
proof -
  have own: "dict_in sonnet_id PRICING"
    by (simp add: dict_in_def sonnet_id_def PRICING_def)
  have "calculate_cost model_id i o' =
          Inr ((of_int i / 1000) * (3 / 1000) + (of_int o' / 1000) * (15 / 1000))"
    using assms by (simp add: calculate_cost_def bnd_def dict_get_sonnet)
  moreover have "calculate_cost sonnet_id i o' =
          Inr ((of_int i / 1000) * (3 / 1000) + (of_int o' / 1000) * (15 / 1000))"
    using own by (simp add: calculate_cost_def bnd_def sonnet_id_def dict_get_sonnet)
  ultimately show ?thesis
    by (simp add: sonnet_id_def dict_get_sonnet)
qed

theorem calculate_cost_unknown_model_witness:
  "\<not> dict_in ''amazon.titan-text-express-v1'' PRICING
   \<and> calculate_cost ''amazon.titan-text-express-v1'' 50000 20000 = Inr (9 / 20)
   \<and> calculate_cost sonnet_id 50000 20000 = Inr (9 / 20)"
proof -
  have h: "\<not> dict_in ''amazon.titan-text-express-v1'' PRICING"
    by (simp add: dict_in_def PRICING_def)
  from calculate_cost_unknown_model [OF h, of 50000 20000]
  obtain p where p: "dict_get PRICING sonnet_id = Inr p"
    and c: "calculate_cost ''amazon.titan-text-express-v1'' 50000 20000 =
              Inr ((of_int 50000 / 1000) * input_price p + (of_int 20000 / 1000) * output_price p)"
    and e: "calculate_cost ''amazon.titan-text-express-v1'' 50000 20000 =
              calculate_cost sonnet_id 50000 20000"
    by blast
  from p have "p = \<lparr>input_price = 3 / 1000, output_price = 15 / 1000\<rparr>"
    by (simp add: sonnet_id_def dict_get_sonnet)
  with c have "calculate_cost ''amazon.titan-text-express-v1'' 50000 20000 = Inr (9 / 20)"
    by simp
  with h e show ?thesis by simp
qed

subsection \<open>The builder never raises\<close>

lemma calculate_cost_Inr: "\<exists>c. calculate_cost m i o' = Inr c"
proof (cases "dict_in m PRICING")
  case True
  from dict_get_in [OF True] obtain p where "dict_get PRICING m = Inr p" by blast
  with True show ?thesis by (simp add: calculate_cost_def bnd_def Let_def)
next
  case False
  then show ?thesis by (simp add: calculate_cost_def bnd_def dict_get_sonnet)
qed

lemma calculate_cost_cost_of:
  "calculate_cost m (input_tokens u) (output_tokens u) = Inr (cost_of (m, u))"
  using calculate_cost_Inr [of m "input_tokens u" "output_tokens u"]
  by (auto simp: cost_of_def)

lemma sum_costs_Inr: "sum_costs acc mus = Inr (acc + sum_list (map cost_of mus))"
  by (induction acc mus rule: sum_costs.induct)
     (simp_all add: bnd_def calculate_cost_cost_of)

lemma avg_latency_Inr: "avg_latency u = Inr (avg_of u)"
  by (simp add: avg_latency_def avg_of_def py_truediv_def)

lemma sum_weighted_latency_Inr:
  "sum_weighted_latency acc mus =
     Inr (acc + sum_list (map (\<lambda>(m, u). avg_of u * of_int (invocations u)) mus))"
  by (induction acc mus rule: sum_weighted_latency.induct)
     (simp_all add: bnd_def avg_latency_Inr)

lemma build_by_model_Inr:
  "build_by_model entries mus =
     Inr (fold (\<lambda>mu. dict_set (fst mu) (entry_of mu)) mus entries)"
  by (induction entries mus rule: build_by_model.induct)
     (simp_all add: bnd_def avg_latency_Inr calculate_cost_cost_of entry_of_def)

lemma fold_dict_set_distinct:
  "distinct (map fst es @ map fst mus) \<Longrightarrow>
   fold (\<lambda>mu. dict_set (fst mu) (f mu)) mus es = es @ map (\<lambda>mu. (fst mu, f mu)) mus"
proof (induction mus arbitrary: es)
  case Nil
  then show ?case by simp
next
  case (Cons mu mus)
  have notin: "fst mu \<notin> fst ` set es" using Cons.prems by auto
  have upd: "dict_set (fst mu) (f mu) es = es @ [(fst mu, f mu)]"
    using notin by (induction es) (auto simp: dict_set_def)
  have "distinct (map fst (es @ [(fst mu, f mu)]) @ map fst mus)"
    using Cons.prems by auto
  from Cons.IH [OF this] show ?case by (simp add: upd)
qed

lemma build_by_model_distinct:
  "distinct (map fst mus) \<Longrightarrow>
   build_by_model [] mus = Inr (map (\<lambda>mu. (fst mu, entry_of mu)) mus)"
  using fold_dict_set_distinct [of "[]" mus entry_of]
  by (simp add: build_by_model_Inr)

lemma p99_part: "(if xs \<noteq> [] then py_max xs else Inr 0) = Inr (p99_of xs)"
  by (cases xs) (simp_all add: p99_of_def)

lemma mult_part:
  "(if h > 0 then py_truediv (of_int (24 * 30)) (of_int h) else Inr 0) =
     Inr (if h > 0 then 720 / of_int h else 0)"
  by (simp add: py_truediv_def)

lemma avg_part:
  "(if n > 0 then bnd (sum_weighted_latency 0 mus) (\<lambda>s. py_truediv s (of_int n)) else Inr 0) =
     Inr (if n > 0
          then sum_list (map (\<lambda>(m, u). avg_of u * of_int (invocations u)) mus) / of_int n
          else 0)"
  by (simp add: bnd_def sum_weighted_latency_Inr py_truediv_def)

lemma rate_part:
  "(if n > 0 then bnd (py_truediv (of_int k) (of_int n)) (\<lambda>q. Inr (q * 100)) else Inr 0) =
     Inr (if n > (0::int) then of_int k / of_int n * 100 else 0)"
  by (simp add: bnd_def py_truediv_def)

lemma bnd_Inr: "bnd (Inr v) f = f v"
  by (simp add: bnd_def)

lemma build_report_eq: "build_report s e mus h = Inr (report_of s e mus h)"
  unfolding build_report_def Let_def sum_costs_Inr bnd_Inr avg_part rate_part p99_part
    mult_part build_by_model_Inr report_of_def
  by simp

lemma cost_of_instant:
  "cost_of (''anthropic.claude-instant-v1'', u) =
     (of_int (input_tokens u) / 1000) * (8 / 10000) + (of_int (output_tokens u) / 1000) * (24 / 10000)"
  by (simp add: cost_of_def calculate_cost_def bnd_def dict_in_def dict_get_def PRICING_def)

subsection \<open>Rounding and truncation\<close>

lemma round_half_even_bounds:
  "\<bar>of_int (round_half_even x) - x\<bar> \<le> 1 / 2"
  unfolding round_half_even_def Let_def
  by (auto split: if_splits)

lemma round_half_even_mono:
  assumes "x \<le> y"
  shows "round_half_even x \<le> round_half_even y"
proof (cases "\<lfloor>x\<rfloor> = \<lfloor>y\<rfloor>")
  case True
  with assms show ?thesis
    unfolding round_half_even_def Let_def by (auto split: if_splits)
next
  case False
  with assms have lt: "\<lfloor>x\<rfloor> + 1 \<le> \<lfloor>y\<rfloor>"
    using floor_mono [OF assms] by linarith
  have "round_half_even x \<le> \<lfloor>x\<rfloor> + 1"
    unfolding round_half_even_def Let_def by (auto split: if_splits)
  moreover have "\<lfloor>y\<rfloor> \<le> round_half_even y"
    unfolding round_half_even_def Let_def by (auto split: if_splits)
  ultimately show ?thesis using lt by linarith
qed

lemma round_half_even_0: "round_half_even 0 = 0"
  by (simp add: round_half_even_def)

lemma py_round_0: "py_round 0 n = 0"
  by (simp add: py_round_def round_half_even_0)

lemma py_round_mono: "x \<le> y \<Longrightarrow> py_round x n \<le> py_round y n"
  unfolding py_round_def
  by (intro divide_right_mono) (auto intro!: round_half_even_mono mult_right_mono)

lemma py_round_error: "\<bar>py_round x n - x\<bar> \<le> 1 / (2 * 10 ^ n)"
proof -
  have p: "(0::real) < 10 ^ n" by simp
  have "\<bar>py_round x n - x\<bar> = \<bar>of_int (round_half_even (x * 10 ^ n)) - x * 10 ^ n\<bar> / 10 ^ n"
    using p by (simp add: py_round_def field_simps abs_divide)
  also have "\<dots> \<le> (1 / 2) / 10 ^ n"
    using round_half_even_bounds [of "x * 10 ^ n"] p by (intro divide_right_mono) auto
  finally show ?thesis by simp
qed

lemma py_int_nonneg: "0 \<le> x \<Longrightarrow> py_int x = \<lfloor>x\<rfloor>"
  by (simp add: py_int_def)

lemma py_int_floor: "\<bar>py_int x - \<lfloor>x\<rfloor>\<bar> \<le> 1"
  unfolding py_int_def by (auto simp: ceiling_altdef)

lemma py_int_of_int: "py_int (of_int k) = k"
  by (simp add: py_int_def)

subsection \<open>Totals of the report\<close>

lemma sum_entries:
  "sum_list (map (\<lambda>(m, en). g en) (map (\<lambda>mu. (fst mu, entry_of mu)) mus)) =
   sum_list (map (\<lambda>mu. g (entry_of mu)) mus)"
  by (induction mus) auto

text \<open>
  Claim C2. For every usage mapping (a dict, so its keys are distinct) and every window
  length, the builder returns a report in which \<open>summary.totalInvocations\<close>,
  \<open>summary.totalInputTokens\<close>, \<open>summary.totalOutputTokens\<close> and
  \<open>performance.errorCount\<close> are exactly the sums of the corresponding fields over the
  entries of \<open>by_model\<close>.
\<close>

theorem build_report_totals:
  assumes "distinct (map fst model_usage)"
  shows "\<exists>r. build_report s e model_usage hours = Inr r
           \<and> totalInvocations (summary r) = sum_list (map (\<lambda>(m, en). m_invocations en) (by_model r))
           \<and> totalInputTokens (summary r) = sum_list (map (\<lambda>(m, en). m_inputTokens en) (by_model r))
           \<and> totalOutputTokens (summary r) = sum_list (map (\<lambda>(m, en). m_outputTokens en) (by_model r))
           \<and> errorCount (performance r) = sum_list (map (\<lambda>(m, en). m_errorCount en) (by_model r))"
proof -
  have bm: "by_model (report_of s e model_usage hours) = map (\<lambda>mu. (fst mu, entry_of mu)) model_usage"
    using fold_dict_set_distinct [of "[]" model_usage entry_of] assms
    by (simp add: report_of_def Let_def)
  have "totalInvocations (summary (report_of s e model_usage hours)) =
          sum_list (map (\<lambda>(m, en). m_invocations en) (by_model (report_of s e model_usage hours)))"
    unfolding bm sum_entries by (simp add: report_of_def Let_def entry_of_def case_prod_unfold)
  moreover have "totalInputTokens (summary (report_of s e model_usage hours)) =
          sum_list (map (\<lambda>(m, en). m_inputTokens en) (by_model (report_of s e model_usage hours)))"
    unfolding bm sum_entries by (simp add: report_of_def Let_def entry_of_def case_prod_unfold)
  moreover have "totalOutputTokens (summary (report_of s e model_usage hours)) =
          sum_list (map (\<lambda>(m, en). m_outputTokens en) (by_model (report_of s e model_usage hours)))"
    unfolding bm sum_entries by (simp add: report_of_def Let_def entry_of_def case_prod_unfold)
  moreover have "errorCount (performance (report_of s e model_usage hours)) =
          sum_list (map (\<lambda>(m, en). m_errorCount en) (by_model (report_of s e model_usage hours)))"
    unfolding bm sum_entries by (simp add: report_of_def Let_def entry_of_def case_prod_unfold)
  ultimately show ?thesis using build_report_eq by blast
qed

theorem build_report_totals_witness:
  "\<exists>r. build_report ''2024-01-01T00:00:00'' ''2024-01-02T00:00:00''
         [(''anthropic.claude-instant-v1'',
           \<lparr>invocations = 100, input_tokens = 50000, output_tokens = 20000,
            total_latency = 250, error_count = 2\<rparr>),
          (''amazon.titan-text-express-v1'',
           \<lparr>invocations = 50, input_tokens = 1000, output_tokens = 3000,
            total_latency = 40, error_count = 1\<rparr>)] 24 = Inr r
     \<and> totalInvocations (summary r) = 150
     \<and> sum_list (map (\<lambda>(m, en). m_invocations en) (by_model r)) = 150
     \<and> errorCount (performance r) = 3
     \<and> sum_list (map (\<lambda>(m, en). m_errorCount en) (by_model r)) = 3"
proof -
  let ?U = "[(''anthropic.claude-instant-v1'',
              \<lparr>invocations = 100, input_tokens = 50000, output_tokens = 20000,
               total_latency = 250, error_count = 2\<rparr>),
             (''amazon.titan-text-express-v1'',
              \<lparr>invocations = 50, input_tokens = 1000, output_tokens = 3000,
               total_latency = 40, error_count = 1\<rparr>)]"
  have h: "distinct (map fst ?U)" by simp
  from build_report_totals [OF h, of "''2024-01-01T00:00:00''" "''2024-01-02T00:00:00''" 24]
  obtain r where r: "build_report ''2024-01-01T00:00:00'' ''2024-01-02T00:00:00'' ?U 24 = Inr r"
    and i: "totalInvocations (summary r) = sum_list (map (\<lambda>(m, en). m_invocations en) (by_model r))"
    and k: "errorCount (performance r) = sum_list (map (\<lambda>(m, en). m_errorCount en) (by_model r))"
    by blast
  from r have eq: "r = report_of ''2024-01-01T00:00:00'' ''2024-01-02T00:00:00'' ?U 24"
    by (simp add: build_report_eq)
  have "totalInvocations (summary r) = 150" and "errorCount (performance r) = 3"
    unfolding eq by (simp_all add: report_of_def Let_def)
  with r i k show ?thesis by auto
qed

subsection \<open>Blended average latency against the p99 approximation\<close>

lemma fold_max_ge: "y \<in> set (x # xs) \<Longrightarrow> y \<le> fold max xs (x::real)"
  using Max_ge [of "set (x # xs)" y] by (simp add: Max.set_eq_fold [symmetric] del: set_simps)

lemma p99_of_ge: "y \<in> set xs \<Longrightarrow> y \<le> p99_of xs"
  by (cases xs) (auto simp: p99_of_def intro: fold_max_ge)

lemma sum_list_le_length:
  "(\<And>x. x \<in> set xs \<Longrightarrow> f x \<le> (M::real)) \<Longrightarrow> sum_list (map f xs) \<le> of_nat (length xs) * M"
  by (induction xs) (auto simp: algebra_simps add_mono)

lemma length_le_invocations:
  "(\<And>m u. (m, u) \<in> set mus \<Longrightarrow> invocations u > 0) \<Longrightarrow>
   int (length mus) \<le> sum_list (map (\<lambda>(m, u). invocations u) mus)"
proof (induction mus)
  case Nil
  then show ?case by simp
next
  case (Cons a mus)
  obtain m u where a: "a = (m, u)" by (cases a)
  have "invocations u > 0" using Cons.prems [of m u] a by simp
  moreover have "int (length mus) \<le> sum_list (map (\<lambda>(m, u). invocations u) mus)"
    using Cons.IH Cons.prems by auto
  ultimately show ?case using a by simp
qed

lemma weighted_is_total:
  "(\<And>m u. (m, u) \<in> set mus \<Longrightarrow> invocations u > 0) \<Longrightarrow>
   sum_list (map (\<lambda>(m, u). avg_of u * of_int (invocations u)) mus) =
   sum_list (map (\<lambda>(m, u). total_latency u) mus)"
proof (induction mus)
  case Nil
  then show ?case by simp
next
  case (Cons a mus)
  obtain m u where a: "a = (m, u)" by (cases a)
  have pos: "invocations u > 0" using Cons.prems [of m u] a by simp
  have "sum_list (map (\<lambda>(m, u). avg_of u * of_int (invocations u)) mus) =
        sum_list (map (\<lambda>(m, u). total_latency u) mus)"
    using Cons.IH Cons.prems by auto
  then show ?case using a pos by (simp add: avg_of_def)
qed

lemma blended_le_max:
  assumes pos: "\<And>m u. (m, u) \<in> set mus \<Longrightarrow> invocations u > 0"
    and nn: "\<And>m u. (m, u) \<in> set mus \<Longrightarrow> 0 \<le> total_latency u"
    and ne: "mus \<noteq> []"
  shows "sum_list (map (\<lambda>(m, u). avg_of u * of_int (invocations u)) mus)
           / of_int (sum_list (map (\<lambda>(m, u). invocations u) mus))
         \<le> p99_of (map (\<lambda>(m, u). total_latency u)
                     (filter (\<lambda>(m, u). invocations u > 0) mus))"
proof -
  let ?n = "sum_list (map (\<lambda>(m, u). invocations u) mus)"
  let ?M = "p99_of (map (\<lambda>(m, u). total_latency u) mus)"
  have fl: "filter (\<lambda>(m, u). invocations u > 0) mus = mus"
    using pos by (auto simp: filter_id_conv)
  have len: "int (length mus) \<le> ?n" using length_le_invocations [of mus] pos by blast
  have npos: "0 < ?n" using len ne by (cases mus) auto
  have each: "\<And>x. x \<in> set mus \<Longrightarrow> (case x of (m, u) \<Rightarrow> total_latency u) \<le> ?M"
    by (rule p99_of_ge) auto
  obtain m0 u0 where in0: "(m0, u0) \<in> set mus" using ne by (cases mus) auto
  have M0: "0 \<le> ?M" using nn [OF in0] each [OF in0] by simp
  have "sum_list (map (\<lambda>(m, u). total_latency u) mus) \<le> of_nat (length mus) * ?M"
    using sum_list_le_length [of mus "\<lambda>(m, u). total_latency u" ?M] each by blast
  also have "\<dots> \<le> of_int ?n * ?M"
  proof (rule mult_right_mono [OF _ M0])
    have "real_of_int (int (length mus)) \<le> real_of_int ?n" using len by (rule of_int_le_iff [THEN iffD2])
    then show "real (length mus) \<le> real_of_int ?n" by simp
  qed
  finally have "sum_list (map (\<lambda>(m, u). total_latency u) mus) / of_int ?n \<le> ?M"
    using npos by (simp add: pos_divide_le_eq mult.commute)
  then show ?thesis using weighted_is_total [of mus] pos fl by simp
qed

text \<open>
  In exact arithmetic, for every usage mapping in which every model has
  \<open>invocations > 0\<close> and a non-negative total latency, the invocation-weighted blend of the
  per-model average latencies is at most the largest per-model total latency, and so are
  the two after rounding to three decimals.
\<close>

lemma build_report_latency_order:
  assumes pos: "\<forall>(m, u) \<in> set model_usage. invocations u > 0"
    and nn: "\<forall>(m, u) \<in> set model_usage. 0 \<le> total_latency u"
  shows "\<exists>r. build_report s e model_usage hours = Inr r
           \<and> avgLatency (performance r) \<le> p99Latency (performance r)"
proof (cases "model_usage = []")
  case True
  then show ?thesis by (simp add: build_report_eq report_of_def p99_of_def)
next
  case False
  have p: "\<And>m u. (m, u) \<in> set model_usage \<Longrightarrow> invocations u > 0" using pos by auto
  have n: "\<And>m u. (m, u) \<in> set model_usage \<Longrightarrow> 0 \<le> total_latency u" using nn by auto
  have len: "int (length model_usage) \<le> sum_list (map (\<lambda>(m, u). invocations u) model_usage)"
    using length_le_invocations [of model_usage] p by blast
  have npos: "0 < sum_list (map (\<lambda>(m, u). invocations u) model_usage)"
    using len False by (cases model_usage) auto
  have "avgLatency (performance (report_of s e model_usage hours))
          \<le> p99Latency (performance (report_of s e model_usage hours))"
    using blended_le_max [of model_usage, OF p n False] npos
    by (simp add: report_of_def Let_def py_round_mono)
  then show ?thesis using build_report_eq by blast
qed

subsection \<open>The latency order in binary64\<close>








subsection \<open>Monthly projections\<close>

text \<open>
  Claim C1, as the code has it. The multiplier is guarded by \<^verbatim>\<open>if hours > 0 else 0\<close>: for
  a window of zero or fewer hours no division takes place, the builder returns a report,
  and both projections in it are zero. (The claim says that the computation fails with a
  division error there.)
\<close>

theorem build_report_nonpositive_hours:
  assumes "hours \<le> 0"
  shows "\<exists>r. build_report s e model_usage hours = Inr r
           \<and> monthlyInvocations (projections r) = 0
           \<and> monthlyCost (projections r) = 0"
  using assms by (simp add: build_report_eq report_of_def Let_def py_round_0 py_int_def)

theorem build_report_nonpositive_hours_witness:
  "\<exists>r. build_report ''2024-01-01T05:00:00'' ''2024-01-01T00:00:00''
     [(''anthropic.claude-instant-v1'',
       \<lparr>invocations = 100, input_tokens = 50000, output_tokens = 20000,
        total_latency = 250, error_count = 0\<rparr>)] (- 5) = Inr r
     \<and> monthlyInvocations (projections r) = 0
     \<and> monthlyCost (projections r) = 0"
proof -
  have h: "(- 5 :: int) \<le> 0" by simp
  show ?thesis by (rule build_report_nonpositive_hours [OF h])
qed

text \<open>
  The claim of C1 fails at \<open>hours = 0\<close>: one model with 100 invocations gives a complete
  report whose projections are zero, not an exception.
\<close>

theorem build_report_zero_hours_counterexample:
  "build_report ''2024-01-01T00:00:00'' ''2024-01-01T00:00:00''
     [(''anthropic.claude-instant-v1'',
       \<lparr>invocations = 100, input_tokens = 50000, output_tokens = 20000,
        total_latency = 250, error_count = 0\<rparr>)] 0
   = Inr \<lparr>period = \<lparr>startTime = ''2024-01-01T00:00:00'', endTime = ''2024-01-01T00:00:00'',
                     durationHours = 0\<rparr>,
          summary = \<lparr>totalInvocations = 100, totalInputTokens = 50000,
                     totalOutputTokens = 20000, estimatedCost = 11 / 125\<rparr>,
          by_model = [(''anthropic.claude-instant-v1'',
                       \<lparr>m_invocations = 100, m_inputTokens = 50000, m_outputTokens = 20000,
                        m_cost = 11 / 125, m_avgLatency = 5 / 2, m_errorCount = 0\<rparr>)],
          projections = \<lparr>monthlyInvocations = 0, monthlyCost = 0\<rparr>,
          performance = \<lparr>avgLatency = 5 / 2, p99Latency = 250, errorCount = 0,
                         errorRate = 0\<rparr>\<rparr>"
  by (simp add: build_report_eq report_of_def Let_def entry_of_def cost_of_instant avg_of_def
      p99_of_def dict_set_def py_round_def round_half_even_def py_int_def)

lemma abs_diff_mult: "0 \<le> p \<Longrightarrow> \<bar>c * p - d * p\<bar> = \<bar>d - c\<bar> * (p::real)"
proof -
  assume p: "0 \<le> p"
  have "c * p - d * p = (c - d) * p" by (simp add: left_diff_distrib)
  then have "\<bar>c * p - d * p\<bar> = \<bar>c - d\<bar> * \<bar>p\<bar>" by (simp add: abs_mult)
  then show ?thesis using p by (simp add: abs_minus_commute)
qed

lemma abs_triangle_via: "\<bar>a - b\<bar> \<le> x \<Longrightarrow> \<bar>b - c\<bar> \<le> y \<Longrightarrow> \<bar>a - c\<bar> \<le> x + (y::real)"
  by linarith

text \<open>
  Claim C5. For every window length from 1 to 8760 hours and every usage mapping, the
  builder returns a report in which \<open>projections.monthlyInvocations\<close> differs from
  \<open>floor (summary.totalInvocations * (720 / hours))\<close> by at most 1, and
  \<open>projections.monthlyCost\<close> differs from \<open>summary.estimatedCost * (720 / hours)\<close> by at
  most \<open>0.005 + 0.00005 * (720 / hours)\<close>, the two decimal roundings, which is below
  \<open>0.1\<close>. When the window divides 720 the projected invocations are exactly
  \<open>totalInvocations * (720 div hours)\<close>; for 24 hours the multiplier is 30 and 100
  invocations project to 3000. Arithmetic is exact here.
\<close>

theorem build_report_projections:
  assumes "1 \<le> hours" and "hours \<le> 8760"
  shows "\<exists>r. build_report s e model_usage hours = Inr r
           \<and> \<bar>monthlyInvocations (projections r)
                - \<lfloor>of_int (totalInvocations (summary r)) * (720 / of_int hours :: real)\<rfloor>\<bar> \<le> 1
           \<and> \<bar>monthlyCost (projections r) - estimatedCost (summary r) * (720 / of_int hours)\<bar>
                \<le> 1 / 200 + (720 / of_int hours) / 20000
           \<and> \<bar>monthlyCost (projections r) - estimatedCost (summary r) * (720 / of_int hours)\<bar>
                < 1 / 10
           \<and> (hours dvd 720 \<longrightarrow>
                monthlyInvocations (projections r) = totalInvocations (summary r) * (720 div hours))"
proof -
  let ?r = "report_of s e model_usage hours"
  let ?pm = "720 / of_int hours :: real"
  let ?c = "sum_list (map cost_of model_usage)"
  have hpos: "0 < hours" using assms by simp
  have pm0: "0 \<le> ?pm" using hpos by simp
  have pm720: "?pm \<le> 720"
  proof -
    have "(1::real) \<le> of_int hours" using assms(1) by simp
    then have "720 / real_of_int hours \<le> 720 / 1" by (intro divide_left_mono) auto
    then show ?thesis by simp
  qed
  have mi: "monthlyInvocations (projections ?r) = py_int (of_int (totalInvocations (summary ?r)) * ?pm)"
    using hpos by (simp add: report_of_def Let_def)
  have inv: "\<bar>monthlyInvocations (projections ?r)
                - \<lfloor>of_int (totalInvocations (summary ?r)) * ?pm\<rfloor>\<bar> \<le> 1"
    unfolding mi by (rule py_int_floor)
  have mc: "monthlyCost (projections ?r) = py_round (?c * ?pm) 2"
    using hpos by (simp add: report_of_def Let_def)
  have ec: "estimatedCost (summary ?r) = py_round ?c 4"
    by (simp add: report_of_def Let_def)
  have e1: "\<bar>py_round (?c * ?pm) 2 - ?c * ?pm\<bar> \<le> 1 / 200"
    using py_round_error [of "?c * ?pm" 2] by simp
  have e2: "\<bar>py_round ?c 4 - ?c\<bar> \<le> 1 / 20000"
    using py_round_error [of ?c 4] by simp
  have e3: "\<bar>?c * ?pm - py_round ?c 4 * ?pm\<bar> \<le> (1 / 20000) * ?pm"
  proof -
    have "\<bar>?c * ?pm - py_round ?c 4 * ?pm\<bar> = \<bar>py_round ?c 4 - ?c\<bar> * ?pm"
      using pm0 by (rule abs_diff_mult)
    also have "\<dots> \<le> (1 / 20000) * ?pm" using e2 pm0 by (rule mult_right_mono)
    finally show ?thesis .
  qed
  have cost: "\<bar>monthlyCost (projections ?r) - estimatedCost (summary ?r) * ?pm\<bar>
                \<le> 1 / 200 + ?pm / 20000"
  proof -
    have "(1 / 20000) * ?pm = ?pm / 20000" by simp
    with e3 have e4: "\<bar>?c * ?pm - py_round ?c 4 * ?pm\<bar> \<le> ?pm / 20000" by simp
    show ?thesis unfolding mc ec by (rule abs_triangle_via [OF e1 e4])
  qed
  have cost': "\<bar>monthlyCost (projections ?r) - estimatedCost (summary ?r) * ?pm\<bar> < 1 / 10"
  proof -
    have "?pm / 20000 \<le> 720 / 20000" using pm720 by (rule divide_right_mono) simp
    then have "1 / 200 + ?pm / 20000 < 1 / 10" by simp
    with cost show ?thesis by (rule le_less_trans)
  qed
  have dv: "hours dvd 720 \<longrightarrow>
              monthlyInvocations (projections ?r) = totalInvocations (summary ?r) * (720 div hours)"
  proof
    assume d: "hours dvd 720"
    have "real_of_int (720 div hours) = real_of_int 720 / real_of_int hours"
      using d by (rule real_of_int_div)
    then have "?pm = of_int (720 div hours)" by simp
    then have "of_int (totalInvocations (summary ?r)) * ?pm
                 = of_int (totalInvocations (summary ?r) * (720 div hours))"
      by simp
    then show "monthlyInvocations (projections ?r) = totalInvocations (summary ?r) * (720 div hours)"
      unfolding mi by (simp only: py_int_of_int)
  qed
  show ?thesis using build_report_eq inv cost cost' dv by blast
qed

theorem build_report_projections_witness:
  "\<exists>r. build_report ''2024-01-01T00:00:00'' ''2024-01-02T00:00:00''
         [(''anthropic.claude-instant-v1'',
           \<lparr>invocations = 100, input_tokens = 50000, output_tokens = 20000,
            total_latency = 250, error_count = 0\<rparr>)] 24 = Inr r
     \<and> totalInvocations (summary r) = 100
     \<and> monthlyInvocations (projections r) = 3000
     \<and> \<bar>monthlyCost (projections r) - estimatedCost (summary r) * 30\<bar> < 1 / 10"
proof -
  let ?U = "[(''anthropic.claude-instant-v1'',
              \<lparr>invocations = 100, input_tokens = 50000, output_tokens = 20000,
               total_latency = 250, error_count = 0\<rparr>)]"
  have lo: "(1::int) \<le> 24" and hi: "(24::int) \<le> 8760" by simp_all
  from build_report_projections [OF lo hi, of "''2024-01-01T00:00:00''" "''2024-01-02T00:00:00''" ?U]
  obtain r where r: "build_report ''2024-01-01T00:00:00'' ''2024-01-02T00:00:00'' ?U 24 = Inr r"
    and c: "\<bar>monthlyCost (projections r) - estimatedCost (summary r) * (720 / of_int 24)\<bar> < 1 / 10"
    and d: "(24::int) dvd 720 \<longrightarrow>
              monthlyInvocations (projections r) = totalInvocations (summary r) * (720 div 24)"
    by blast
  from r have eq: "r = report_of ''2024-01-01T00:00:00'' ''2024-01-02T00:00:00'' ?U 24"
    by (simp add: build_report_eq)
  have t: "totalInvocations (summary r) = 100"
    unfolding eq by (simp add: report_of_def Let_def)
  have "monthlyInvocations (projections r) = 3000" using d t by simp
  moreover have "\<bar>monthlyCost (projections r) - estimatedCost (summary r) * 30\<bar> < 1 / 10"
    using c by simp
  ultimately show ?thesis using r t by auto
qed

subsection \<open>The usage aggregator\<close>

lemma get_metrics_data_Inr: "\<exists>model_usage. get_metrics_data env s e = Inr model_usage"
  by (simp add: get_metrics_data_def split: sum.splits prod.splits)

lemma get_error_count_Inr: "\<exists>n. get_error_count env m s e = Inr n"
  by (simp add: get_error_count_def split: sum.splits py_exception.splits)

lemma get_metric_sum_ClientError:
  "get_metric_statistics env name m s e = Inl (ClientError code msg) \<Longrightarrow>
   get_metric_sum env name m s e = Inr 0"
  by (simp add: get_metric_sum_def)

lemma poll_loop_not_complete:
  "(\<And>n res. wait_time < n \<Longrightarrow> n \<le> 10 \<Longrightarrow> get_query_results env q n = Inr res \<Longrightarrow>
      q_status res \<noteq> ''Complete'') \<Longrightarrow>
   poll_loop env q wait_time = Inr 0 \<or> isl (poll_loop env q wait_time)"
proof (induction env q wait_time rule: poll_loop.induct)
  case (1 env query_id wait_time)
  show ?case
  proof (cases "wait_time < 10")
    case False
    then show ?thesis by (simp add: poll_loop.simps)
  next
    case True
    have later: "\<And>n res. wait_time + 1 < n \<Longrightarrow> n \<le> 10 \<Longrightarrow>
        get_query_results env query_id n = Inr res \<Longrightarrow> q_status res \<noteq> ''Complete''"
    proof -
      fix n res
      assume a: "wait_time + 1 < n" "n \<le> 10" "get_query_results env query_id n = Inr res"
      from a(1) have "wait_time < n" by simp
      from "1.prems" [OF this a(2) a(3)] show "q_status res \<noteq> ''Complete''" .
    qed
    have now: "\<And>res. get_query_results env query_id (wait_time + 1) = Inr res \<Longrightarrow>
        q_status res \<noteq> ''Complete''"
    proof -
      fix res
      assume a: "get_query_results env query_id (wait_time + 1) = Inr res"
      have "wait_time < wait_time + 1" and "wait_time + 1 \<le> 10" using True by simp_all
      from "1.prems" [OF this a] show "q_status res \<noteq> ''Complete''" .
    qed
    have once: "poll_once env query_id (wait_time + 1) = Inr (Some 0)
                \<or> poll_once env query_id (wait_time + 1) = Inr None
                \<or> isl (poll_once env query_id (wait_time + 1))"
      using now by (cases "get_query_results env query_id (wait_time + 1)")
                   (auto simp: poll_once_def bnd_def)
    show ?thesis
    proof (cases "poll_once env query_id (wait_time + 1)")
      case (Inl ex)
      show ?thesis
      proof (cases ex)
        case (ClientError code msg)
        with Inl True "1.IH"(1) [OF True Inl ClientError later] show ?thesis
          by (simp add: poll_loop.simps [of env query_id wait_time])
      qed (use Inl True in \<open>simp_all add: poll_loop.simps [of env query_id wait_time]\<close>)
    next
      case (Inr r)
      show ?thesis
      proof (cases r)
        case None
        with Inr True "1.IH"(2) [OF True Inr None later] show ?thesis
          by (simp add: poll_loop.simps [of env query_id wait_time])
      next
        case (Some n)
        with Inr once have "n = 0" by simp
        with Inr Some True show ?thesis
          by (simp add: poll_loop.simps [of env query_id wait_time])
      qed
    qed
  qed
qed

lemma get_error_count_failure:
  "isl (start_query env m s e) \<Longrightarrow> get_error_count env m s e = Inr 0"
  by (cases "start_query env m s e")
     (auto simp: get_error_count_def bnd_def split: py_exception.splits)

lemma get_error_count_timeout:
  assumes "start_query env m s e = Inr q"
    and "\<And>n res. 1 \<le> n \<Longrightarrow> n \<le> 10 \<Longrightarrow> get_query_results env q n = Inr res \<Longrightarrow>
           q_status res \<noteq> ''Complete''"
  shows "get_error_count env m s e = Inr 0"
proof -
  have "poll_loop env q 0 = Inr 0 \<or> isl (poll_loop env q 0)"
  proof (rule poll_loop_not_complete)
    fix n res
    assume a: "0 < n" "n \<le> 10" "get_query_results env q n = Inr res"
    from a(1) have "1 \<le> n" by simp
    from assms(2) [OF this a(2) a(3)] show "q_status res \<noteq> ''Complete''" .
  qed
  then show ?thesis using assms(1)
    by (cases "poll_loop env q 0")
       (auto simp: get_error_count_def bnd_def split: py_exception.splits)
qed

lemma zero_failures_fields:
  "list_metrics (zero_failures env) = list_metrics env"
  "start_query (zero_failures env) = start_query env"
  "get_query_results (zero_failures env) = get_query_results env"
  "parse_float (zero_failures env) = parse_float env"
  by (simp_all add: zero_failures_def)

lemma poll_once_zero_failures: "poll_once (zero_failures env) q n = poll_once env q n"
  unfolding poll_once_def zero_failures_fields by (rule refl)

lemma poll_loop_zero_failures: "poll_loop (zero_failures env) q w = poll_loop env q w"
proof (induction env q w rule: poll_loop.induct)
  case (1 env query_id wait_time)
  note l = poll_loop.simps [of "zero_failures env" query_id wait_time]
  note r = poll_loop.simps [of env query_id wait_time]
  show ?case
  proof (cases "wait_time < 10")
    case False
    then show ?thesis by (simp add: l r)
  next
    case True
    show ?thesis
    proof (cases "poll_once env query_id (wait_time + 1)")
      case (Inl ex)
      show ?thesis
      proof (cases ex)
        case (ClientError code msg)
        with Inl True "1.IH"(1) [OF True Inl ClientError] show ?thesis
          by (simp add: l r poll_once_zero_failures)
      qed (use Inl True in \<open>simp_all add: l r poll_once_zero_failures\<close>)
    next
      case (Inr v)
      show ?thesis
      proof (cases v)
        case None
        with Inr True "1.IH"(2) [OF True Inr None] show ?thesis
          by (simp add: l r poll_once_zero_failures)
      next
        case (Some n)
        with Inr True show ?thesis by (simp add: l r poll_once_zero_failures)
      qed
    qed
  qed
qed

lemma get_error_count_zero_failures:
  "get_error_count (zero_failures env) m s e = get_error_count env m s e"
  by (simp add: get_error_count_def zero_failures_fields poll_loop_zero_failures)

lemma get_available_models_zero_failures:
  "get_available_models (zero_failures env) s e = get_available_models env s e"
  by (simp add: get_available_models_def zero_failures_fields)

lemma get_metric_sum_zero_failures:
  assumes "\<And>ex. get_metric_statistics env name m s e = Inl ex \<Longrightarrow> \<exists>code msg. ex = ClientError code msg"
  shows "get_metric_sum (zero_failures env) name m s e = get_metric_sum env name m s e"
proof (cases "get_metric_statistics env name m s e")
  case (Inl ex)
  with assms obtain code msg where "ex = ClientError code msg" by blast
  with Inl show ?thesis by (simp add: get_metric_sum_def zero_failures_def py_int_def)
next
  case (Inr dps)
  then show ?thesis by (simp add: get_metric_sum_def zero_failures_def)
qed

lemma collect_usage_zero_failures:
  assumes "\<And>name ex. get_metric_statistics env name m s e = Inl ex \<Longrightarrow> \<exists>code msg. ex = ClientError code msg"
  shows "collect_usage (zero_failures env) m s e = collect_usage env m s e"
  using assms
  by (simp add: collect_usage_def get_metric_sum_zero_failures get_error_count_zero_failures)

lemma usage_loop_zero_failures:
  assumes "\<And>name m ex. get_metric_statistics env name m s e = Inl ex \<Longrightarrow> \<exists>code msg. ex = ClientError code msg"
  shows "usage_loop (zero_failures env) s e mu models = usage_loop env s e mu models"
  using assms
  by (induction models arbitrary: mu)
     (simp_all add: collect_usage_zero_failures split: sum.splits)

lemma get_metrics_data_zero_failures:
  assumes "\<And>name m ex. get_metric_statistics env name m s e = Inl ex \<Longrightarrow> \<exists>code msg. ex = ClientError code msg"
  shows "get_metrics_data (zero_failures env) s e = get_metrics_data env s e"
  using assms
  by (simp add: get_metrics_data_def get_available_models_zero_failures usage_loop_zero_failures
      split: sum.splits)

lemma models_two: "get_available_models timeout_env 0 0 = Inr [''model-a'', ''model-b'']"
  "get_available_models throttled_env 0 0 = Inr [''model-a'', ''model-b'']"
  "get_available_models (zero_failures timeout_env) 0 0 = Inr [''model-a'', ''model-b'']"
  by (simp_all add: get_available_models_def timeout_env_def throttled_env_def two_models_def
      zero_failures_def)

lemma quiet_error_count:
  "get_error_count timeout_env m 0 0 = Inr 0"
  by (simp add: get_error_count_def bnd_def timeout_env_def quiet_env_def
      poll_loop.simps [of _ _ 0] poll_once_def)

text \<open>
  Claim C8, as the code has it. For every time window and every environment,
  \<open>get_metrics_data\<close> returns a mapping and raises nothing. A metric query that fails with
  a \<^verbatim>\<open>ClientError\<close> gives \<open>0\<close> for that metric. The error count is always a number: it is
  \<open>0\<close> when the log query cannot be started and when none of the ten polls reports
  \<^verbatim>\<open>Complete\<close>. When every failing metric query fails with a \<^verbatim>\<open>ClientError\<close>, the
  mapping is the one obtained if those queries had returned \<open>0\<close>. (The claim promises
  this for every failure of a query; a failure of another class is caught by the outer
  handler only.)
\<close>

theorem get_metrics_data_fault_tolerance:
  "(\<exists>model_usage. get_metrics_data env s e = Inr model_usage)
   \<and> (\<forall>name m code msg.
         get_metric_statistics env name m s e = Inl (ClientError code msg) \<longrightarrow>
         get_metric_sum env name m s e = Inr 0)
   \<and> (\<forall>m. \<exists>n. get_error_count env m s e = Inr n)
   \<and> (\<forall>m. isl (start_query env m s e) \<longrightarrow> get_error_count env m s e = Inr 0)
   \<and> (\<forall>m q. start_query env m s e = Inr q
              \<and> (\<forall>n res. 1 \<le> n \<and> n \<le> 10 \<and> get_query_results env q n = Inr res
                    \<longrightarrow> q_status res \<noteq> ''Complete'')
              \<longrightarrow> get_error_count env m s e = Inr 0)
   \<and> ((\<forall>name m ex. get_metric_statistics env name m s e = Inl ex
                      \<longrightarrow> (\<exists>code msg. ex = ClientError code msg))
        \<longrightarrow> get_metrics_data env s e = get_metrics_data (zero_failures env) s e)"
proof (intro conjI allI impI)
  show "\<exists>model_usage. get_metrics_data env s e = Inr model_usage"
    by (rule get_metrics_data_Inr)
next
  fix name m code msg
  assume "get_metric_statistics env name m s e = Inl (ClientError code msg)"
  then show "get_metric_sum env name m s e = Inr 0" by (rule get_metric_sum_ClientError)
next
  fix m show "\<exists>n. get_error_count env m s e = Inr n" by (rule get_error_count_Inr)
next
  fix m assume "isl (start_query env m s e)"
  then show "get_error_count env m s e = Inr 0" by (rule get_error_count_failure)
next
  fix m q
  assume a: "start_query env m s e = Inr q
              \<and> (\<forall>n res. 1 \<le> n \<and> n \<le> 10 \<and> get_query_results env q n = Inr res
                    \<longrightarrow> q_status res \<noteq> ''Complete'')"
  show "get_error_count env m s e = Inr 0"
  proof (rule get_error_count_timeout)
    show "start_query env m s e = Inr q" using a by simp
  next
    fix n res
    assume "1 \<le> n" "n \<le> 10" "get_query_results env q n = Inr res"
    with a show "q_status res \<noteq> ''Complete''" by blast
  qed
next
  assume a: "\<forall>name m ex. get_metric_statistics env name m s e = Inl ex
                      \<longrightarrow> (\<exists>code msg. ex = ClientError code msg)"
  have "get_metrics_data (zero_failures env) s e = get_metrics_data env s e"
    by (rule get_metrics_data_zero_failures) (use a in blast)
  then show "get_metrics_data env s e = get_metrics_data (zero_failures env) s e" by simp
qed

theorem get_metrics_data_fault_tolerance_witness:
  "get_metric_sum throttled_env ''InputTokenCount'' ''model-a'' 0 0 = Inr 0
   \<and> get_error_count throttled_env ''model-a'' 0 0 = Inr 0
   \<and> get_error_count throttled_env ''model-b'' 0 0 = Inr 0
   \<and> get_metrics_data throttled_env 0 0 = get_metrics_data (zero_failures throttled_env) 0 0
   \<and> get_metrics_data throttled_env 0 0 =
       Inr [(''model-a'',
             \<lparr>invocations = 5, input_tokens = 0, output_tokens = 5,
              total_latency = 1 / 200, error_count = 0\<rparr>),
            (''model-b'',
             \<lparr>invocations = 5, input_tokens = 5, output_tokens = 5,
              total_latency = 1 / 200, error_count = 0\<rparr>)]"
proof -
  note t = get_metrics_data_fault_tolerance [of throttled_env 0 0]
  have q1: "get_metric_statistics throttled_env ''InputTokenCount'' ''model-a'' 0 0 =
              Inl (ClientError ''ThrottlingException'' ''Rate exceeded'')"
    by (simp add: throttled_env_def)
  have c1: "get_metric_sum throttled_env ''InputTokenCount'' ''model-a'' 0 0 = Inr 0"
    using t q1 by blast
  have "isl (start_query throttled_env ''model-a'' 0 0)"
    by (simp add: throttled_env_def)
  then have c2: "get_error_count throttled_env ''model-a'' 0 0 = Inr 0"
    using t by blast
  have sq: "start_query throttled_env ''model-b'' 0 0 = Inr ''query-b''"
    by (simp add: throttled_env_def)
  have run: "\<forall>n res. 1 \<le> n \<and> n \<le> 10 \<and> get_query_results throttled_env ''query-b'' n = Inr res
                    \<longrightarrow> q_status res \<noteq> ''Complete''"
    by (auto simp: throttled_env_def)
  have c3: "get_error_count throttled_env ''model-b'' 0 0 = Inr 0"
    using t sq run by blast
  have only: "\<forall>name m ex. get_metric_statistics throttled_env name m 0 0 = Inl ex
                      \<longrightarrow> (\<exists>code msg. ex = ClientError code msg)"
    by (auto simp: throttled_env_def split: if_splits)
  have c4: "get_metrics_data throttled_env 0 0 = get_metrics_data (zero_failures throttled_env) 0 0"
    using t only by blast
  have ms: "\<And>name m. get_metric_sum throttled_env name m 0 0 =
              (if name = ''InputTokenCount'' \<and> m = ''model-a'' then Inr 0 else Inr 5)"
    by (simp add: get_metric_sum_def throttled_env_def py_int_def)
  have a: "collect_usage throttled_env ''model-a'' 0 0 =
              Inr \<lparr>invocations = 5, input_tokens = 0, output_tokens = 5,
                   total_latency = 1 / 200, error_count = 0\<rparr>"
    by (simp add: collect_usage_def ms bnd_def c2)
  have b: "collect_usage throttled_env ''model-b'' 0 0 =
              Inr \<lparr>invocations = 5, input_tokens = 5, output_tokens = 5,
                   total_latency = 1 / 200, error_count = 0\<rparr>"
    by (simp add: collect_usage_def ms bnd_def c3)
  have c5: "get_metrics_data throttled_env 0 0 =
       Inr [(''model-a'',
             \<lparr>invocations = 5, input_tokens = 0, output_tokens = 5,
              total_latency = 1 / 200, error_count = 0\<rparr>),
            (''model-b'',
             \<lparr>invocations = 5, input_tokens = 5, output_tokens = 5,
              total_latency = 1 / 200, error_count = 0\<rparr>)]"
    by (simp add: get_metrics_data_def models_two a b dict_set_def)
  from c1 c2 c3 c4 c5 show ?thesis by blast
qed

text \<open>
  The claim of C8 fails in \<open>timeout_env\<close>: the read timeout of the first input-token
  query ends the whole loop, and the mapping is empty, although both models have
  invocations; had the failed queries counted as \<open>0\<close>, both models would be in the
  mapping with \<open>input_tokens = 0\<close>.
\<close>

theorem get_metrics_data_timeout_counterexample:
  "get_metrics_data timeout_env 0 0 = Inr []
   \<and> get_metrics_data (zero_failures timeout_env) 0 0 =
       Inr [(''model-a'',
             \<lparr>invocations = 5, input_tokens = 0, output_tokens = 5,
              total_latency = 1 / 200, error_count = 0\<rparr>),
            (''model-b'',
             \<lparr>invocations = 5, input_tokens = 0, output_tokens = 5,
              total_latency = 1 / 200, error_count = 0\<rparr>)]"
proof -
  have ms: "\<And>name m. get_metric_sum timeout_env name m 0 0 =
              (if name = ''InputTokenCount''
               then Inl (OtherException ''Read timeout on endpoint URL'') else Inr 5)"
    by (simp add: get_metric_sum_def timeout_env_def py_int_def)
  have ms0: "\<And>name m. get_metric_sum (zero_failures timeout_env) name m 0 0 =
              (if name = ''InputTokenCount'' then Inr 0 else Inr 5)"
    by (simp add: get_metric_sum_def timeout_env_def zero_failures_def py_int_def)
  have a: "collect_usage timeout_env ''model-a'' 0 0 = Inl (OtherException ''Read timeout on endpoint URL'')"
    by (simp add: collect_usage_def ms bnd_def)
  have ec: "\<And>m. get_error_count (zero_failures timeout_env) m 0 0 = Inr 0"
    by (simp add: get_error_count_zero_failures quiet_error_count)
  have a0: "collect_usage (zero_failures timeout_env) ''model-a'' 0 0 =
              Inr \<lparr>invocations = 5, input_tokens = 0, output_tokens = 5,
                   total_latency = 1 / 200, error_count = 0\<rparr>"
    by (simp add: collect_usage_def ms0 bnd_def ec)
  have b0: "collect_usage (zero_failures timeout_env) ''model-b'' 0 0 =
              Inr \<lparr>invocations = 5, input_tokens = 0, output_tokens = 5,
                   total_latency = 1 / 200, error_count = 0\<rparr>"
    by (simp add: collect_usage_def ms0 bnd_def ec)
  have "get_metrics_data timeout_env 0 0 = Inr []"
    by (simp add: get_metrics_data_def models_two a)
  moreover have "get_metrics_data (zero_failures timeout_env) 0 0 =
       Inr [(''model-a'',
             \<lparr>invocations = 5, input_tokens = 0, output_tokens = 5,
              total_latency = 1 / 200, error_count = 0\<rparr>),
            (''model-b'',
             \<lparr>invocations = 5, input_tokens = 0, output_tokens = 5,
              total_latency = 1 / 200, error_count = 0\<rparr>)]"
    by (simp add: get_metrics_data_def models_two a0 b0 dict_set_def)
  ultimately show ?thesis by simp
qed

subsection \<open>The report formatter\<close>

lemma lower_char_idem: "lower_char (lower_char c) = lower_char c"
  by (auto simp: lower_char_def of_char_of)

lemma lower_idem: "lower (lower s) = lower s"
  by (simp add: lower_def lower_char_idem)

lemma lower_JSON: "lower ''JSON'' = ''json''" and lower_json: "lower ''json'' = ''json''"
  and lower_Text: "lower ''Text'' = ''text''" and lower_text: "lower ''text'' = ''text''"
  by code_simp+

lemma format_report_lower_Inr:
  "(format_report env r m = Inr s) = (format_report env r (lower m) = Inr s)"
  by (simp add: format_report_def lower_idem)

lemma format_report_Inl:
  "format_report env r m = Inl e \<Longrightarrow> e = ValueError (''Unsupported output format: '' @ m)"
  by (auto simp: format_report_def split: if_splits)

lemma lower_TEXT: "lower ''TEXT'' = ''text''" and lower_xml: "lower ''xml'' = ''xml''"
  by code_simp+

text \<open>
  Claim C7, as the code has it. The mode is compared after \<^verbatim>\<open>lower()\<close>: for every report
  and every mode whose lower-case form is neither \<open>json\<close> nor \<open>text\<close>, \<open>format_report\<close>
  raises \<^verbatim>\<open>ValueError\<close> with the message naming the mode; for a mode whose lower-case
  form is \<open>json\<close> it returns the JSON serialisation, and for one whose lower-case form is
  \<open>text\<close> it returns the text report. (The claim says that every mode other than the two
  lower-case names fails.)
\<close>

theorem format_report_modes:
  "(lower m \<noteq> ''json'' \<and> lower m \<noteq> ''text'' \<longrightarrow>
      format_report env r m = Inl (ValueError (''Unsupported output format: '' @ m)))
   \<and> (lower m = ''json'' \<longrightarrow> format_report env r m = Inr (json_dumps env r))
   \<and> (lower m = ''text'' \<longrightarrow> format_report env r m = Inr (format_text_report r))"
  by (simp add: format_report_def)

theorem format_report_modes_witness:
  "format_report quiet_env sample_report ''xml'' = Inl (ValueError ''Unsupported output format: xml'')
   \<and> format_report quiet_env sample_report ''json'' = Inr (json_dumps quiet_env sample_report)
   \<and> format_report quiet_env sample_report ''TEXT'' = Inr (format_text_report sample_report)"
  using format_report_modes [of "''xml''" quiet_env sample_report]
    format_report_modes [of "''json''" quiet_env sample_report]
    format_report_modes [of "''TEXT''" quiet_env sample_report]
  by (simp add: lower_TEXT lower_xml lower_json)

text \<open>
  The claim of C7 fails at the mode \<open>TEXT\<close>: it is neither of the two supported names,
  and the formatter returns the text report.
\<close>

theorem format_report_uppercase_counterexample:
  "''TEXT'' \<noteq> ''json'' \<and> ''TEXT'' \<noteq> ''text''
   \<and> format_report quiet_env sample_report ''TEXT'' = Inr (format_text_report sample_report)"
  by (simp add: format_report_def lower_TEXT)

text \<open>
  Claim C10. For every report and every mode string \<open>m\<close>, \<open>format_report\<close> returns a
  string for \<open>m\<close> exactly when it returns that string for \<open>lower m\<close>, and it raises its
  \<^verbatim>\<open>ValueError\<close> for \<open>m\<close> exactly when it raises it for \<open>lower m\<close> (each message
  quotes the mode as it was given); \<open>JSON\<close> and \<open>Text\<close> give what \<open>json\<close> and \<open>text\<close>
  give.
\<close>

theorem format_report_case_insensitive:
  "(\<forall>s. (format_report env r m = Inr s) = (format_report env r (lower m) = Inr s))
   \<and> ((format_report env r m = Inl (ValueError (''Unsupported output format: '' @ m)))
        = (format_report env r (lower m) = Inl (ValueError (''Unsupported output format: '' @ lower m))))
   \<and> format_report env r ''JSON'' = format_report env r ''json''
   \<and> format_report env r ''Text'' = format_report env r ''text''"
proof -
  have a: "\<forall>s. (format_report env r m = Inr s) = (format_report env r (lower m) = Inr s)"
    using format_report_lower_Inr by blast
  have b: "(format_report env r m = Inl (ValueError (''Unsupported output format: '' @ m)))
        = (format_report env r (lower m) = Inl (ValueError (''Unsupported output format: '' @ lower m)))"
    by (simp add: format_report_def lower_idem)
  have c: "format_report env r ''JSON'' = format_report env r ''json''"
    by (simp add: format_report_def lower_JSON lower_json)
  have d: "format_report env r ''Text'' = format_report env r ''text''"
    by (simp add: format_report_def lower_Text lower_text)
  from a b c d show ?thesis by blast
qed

subsection \<open>Validation of the arguments\<close>

text \<open>
  Claim C6. For every \<open>--hours\<close> value below 1 or above 8760, \<open>validate_arguments\<close>
  returns a non-empty list and \<open>main\<close> ends with exit code 1 after printing the list,
  whatever the AWS environment is: no client call has been made. For every value from 1
  to 8760 the list holds no error about the hours: it is empty, or holds the error about
  a malformed region only.
\<close>

theorem validate_hours:
  "(arg_hours args < 1 \<or> 8760 < arg_hours args \<longrightarrow>
      validate_arguments args \<noteq> []
      \<and> (\<forall>env. main env args =
            Exit 1 (''Validation errors:'' # map (\<lambda>error. ''  - '' @ error) (validate_arguments args))))
   \<and> (1 \<le> arg_hours args \<and> arg_hours args \<le> 8760 \<longrightarrow>
        validate_arguments args =
          (case arg_region args of
             None \<Rightarrow> []
           | Some region \<Rightarrow>
               if region \<noteq> [] \<and> \<not> validate_aws_region region
               then [''Invalid AWS region format: '' @ region] else []))"
  by (auto simp: validate_arguments_def main_def Let_def split: option.splits)

theorem validate_hours_witness:
  "validate_arguments \<lparr>arg_hours = 0, arg_region = None, arg_output = ''json'',
                       arg_validate_only = False\<rparr> = [''Hours must be a positive integer'']
   \<and> (\<forall>env. main env \<lparr>arg_hours = 0, arg_region = None, arg_output = ''json'',
                       arg_validate_only = False\<rparr>
         = Exit 1 [''Validation errors:'', ''  - Hours must be a positive integer''])
   \<and> (\<forall>env. main env \<lparr>arg_hours = 8761, arg_region = None, arg_output = ''json'',
                       arg_validate_only = False\<rparr>
         = Exit 1 [''Validation errors:'', ''  - Hours cannot exceed 8760 (1 year)''])
   \<and> validate_arguments \<lparr>arg_hours = 24, arg_region = None, arg_output = ''json'',
                         arg_validate_only = False\<rparr> = []
   \<and> validate_arguments \<lparr>arg_hours = 8760, arg_region = Some ''us-east-1'', arg_output = ''json'',
                         arg_validate_only = False\<rparr> = []"
proof -
  let ?a0 = "\<lparr>arg_hours = 0, arg_region = None, arg_output = ''json'', arg_validate_only = False\<rparr>"
  let ?a1 = "\<lparr>arg_hours = 8761, arg_region = None, arg_output = ''json'', arg_validate_only = False\<rparr>"
  let ?a2 = "\<lparr>arg_hours = 24, arg_region = None, arg_output = ''json'', arg_validate_only = False\<rparr>"
  let ?a3 = "\<lparr>arg_hours = 8760, arg_region = Some ''us-east-1'', arg_output = ''json'',
              arg_validate_only = False\<rparr>"
  have v0: "validate_arguments ?a0 = [''Hours must be a positive integer'']"
    by (simp add: validate_arguments_def)
  have v1: "validate_arguments ?a1 = [''Hours cannot exceed 8760 (1 year)'']"
    by (simp add: validate_arguments_def)
  have m0: "\<forall>env. main env ?a0 = Exit 1 [''Validation errors:'', ''  - Hours must be a positive integer'']"
    using validate_hours [of ?a0] v0 by simp
  have m1: "\<forall>env. main env ?a1 = Exit 1 [''Validation errors:'', ''  - Hours cannot exceed 8760 (1 year)'']"
    using validate_hours [of ?a1] v1 by simp
  have v2: "validate_arguments ?a2 = []"
    using validate_hours [of ?a2] by simp
  have reg: "validate_aws_region ''us-east-1''" by code_simp
  have v3: "validate_arguments ?a3 = []"
    using validate_hours [of ?a3] reg by simp
  from v0 m0 m1 v2 v3 show ?thesis by blast
qed

subsection \<open>What the aggregator hands to the builder\<close>

text \<open>
  The mapping that \<open>get_metrics_data\<close> returns is a dict (its keys are distinct) and holds
  only models with \<open>invocations > 0\<close>; a report that \<open>generate_report\<close> returns is the
  report that \<open>build_report\<close> builds from such a mapping.
\<close>

lemma dict_set_member:
  "(k', v') \<in> set (dict_set k v d) \<Longrightarrow> (k', v') = (k, v) \<or> (k', v') \<in> set d"
  unfolding dict_set_def by (induction d) (auto split: if_splits)

lemma dict_set_distinct: "distinct (map fst d) \<Longrightarrow> distinct (map fst (dict_set k v d))"
  unfolding dict_set_def by (rule distinct_update)

lemma usage_loop_invariant:
  assumes "distinct (map fst mu)" and "\<forall>(m, u) \<in> set mu. invocations u > 0"
  shows "distinct (map fst (fst (usage_loop env s e mu models)))
         \<and> (\<forall>(m, u) \<in> set (fst (usage_loop env s e mu models)). invocations u > 0)"
  using assms
proof (induction models arbitrary: mu)
  case Nil
  then show ?case by simp
next
  case (Cons model_id rest)
  show ?case
  proof (cases "collect_usage env model_id s e")
    case (Inl ex)
    with Cons.prems show ?thesis by simp
  next
    case (Inr usage)
    let ?mu = "if invocations usage > 0 then dict_set model_id usage mu else mu"
    have d: "distinct (map fst ?mu)" using Cons.prems(1) by (simp add: dict_set_distinct)
    have p: "\<forall>(m, u) \<in> set ?mu. invocations u > 0"
      using Cons.prems(2) by (auto dest: dict_set_member)
    from Cons.IH [OF d p] Inr show ?thesis by simp
  qed
qed

lemma get_metrics_data_invariant:
  assumes "get_metrics_data env s e = Inr mu"
  shows "distinct (map fst mu) \<and> (\<forall>(m, u) \<in> set mu. invocations u > 0)"
proof (cases "get_available_models env s e")
  case (Inl ex)
  with assms show ?thesis by (simp add: get_metrics_data_def)
next
  case (Inr models)
  show ?thesis
  proof (cases "models = []")
    case True
    with Inr assms show ?thesis by (simp add: get_metrics_data_def)
  next
    case False
    with Inr assms have "mu = fst (usage_loop env s e [] models)"
      by (simp add: get_metrics_data_def split: prod.splits)
    then show ?thesis using usage_loop_invariant [of "[]" env s e models] by simp
  qed
qed

lemma generate_report_build:
  assumes "generate_report env hours = Inr r"
  shows "\<exists>start_time mu.
           get_metrics_data env start_time (utcnow env) = Inr mu
           \<and> build_report (isoformat env start_time) (isoformat env (utcnow env)) mu hours = Inr r"
  using assms
  by (auto simp: generate_report_def Let_def bnd_def split: sum.splits)

end
